theory Spec2Isabelle
  imports Main "HOL-Library.AList" "HOL-Library.Word"
begin

section \<open>The extension environment of emblem (src/ext/ext-env.c)\<close>

text \<open>
  The file creates a Lua runtime for a document, publishes host values in its global
  scope, loads the standard libraries the sandbox level allows, and registers the
  callable \<open>requires_reiter\<close>, with which extension code asks for another pass.

  The model is a typed store: Lua runtimes, tagged handles (\<open>LuaPointer\<close>) and
  environments (\<open>ExtensionEnv\<close>) live at addresses, and every C function becomes a
  function from the store to the store. Two pointers of one type alias exactly when the
  addresses are equal.
\<close>

subsection \<open>Lua values and the Lua state\<close>

type_synonym addr = nat

text \<open>The C functions whose addresses the file hands to Lua.\<close>

datatype lua_CFunction =
    luaopen_base | luaopen_package | luaopen_coroutine | luaopen_utf8 | luaopen_table
  | luaopen_string | luaopen_math | luaopen_debug | luaopen_io | luaopen_os
  | ext_eval_tree | ext_import_stylesheet | ext_require_rerun_ptr | ext_include_file

text \<open>
  Lua values. \<open>LModule f\<close> is the library table that the opener \<open>f\<close> returns; what the
  library holds inside is not modelled. A table created by the host is an association
  list with one pair per key. \<open>LInteger\<close> carries the value of a \<open>lua_Integer\<close>.
\<close>

datatype lua_value =
    LNil
  | LBoolean bool
  | LInteger int
  | LString string
  | LLightUserdata addr
  | LCFunction lua_CFunction
  | LModule lua_CFunction
  | LTable "(string \<times> lua_value) list"

text \<open>
  The part of a \<open>lua_State\<close> the file touches: the stack of the running C function (top
  of the stack first, so index \<open>-1\<close> is the head and \<open>-2\<close> the element after it), the
  global table and the table of loaded modules (\<open>package.loaded\<close>). A key that is absent
  reads as \<open>LNil\<close>, as in Lua.
\<close>

record lua_State =
  stack :: "lua_value list"
  globals :: "string \<Rightarrow> lua_value"
  loaded :: "string \<Rightarrow> lua_value"

definition lua_gettop :: "lua_State \<Rightarrow> int" where
  "lua_gettop L = int (length (stack L))"

definition lua_pushinteger :: "lua_State \<Rightarrow> int \<Rightarrow> lua_State" where
  "lua_pushinteger L n = L\<lparr>stack := LInteger n # stack L\<rparr>"

definition lua_pushlightuserdata :: "lua_State \<Rightarrow> addr \<Rightarrow> lua_State" where
  "lua_pushlightuserdata L p = L\<lparr>stack := LLightUserdata p # stack L\<rparr>"

definition lua_pushcfunction :: "lua_State \<Rightarrow> lua_CFunction \<Rightarrow> lua_State" where
  "lua_pushcfunction L f = L\<lparr>stack := LCFunction f # stack L\<rparr>"

definition lua_pushstring :: "lua_State \<Rightarrow> string \<Rightarrow> lua_State" where
  "lua_pushstring L str = L\<lparr>stack := LString str # stack L\<rparr>"

definition lua_newtable :: "lua_State \<Rightarrow> lua_State" where
  "lua_newtable L = L\<lparr>stack := LTable [] # stack L\<rparr>"

definition lua_pop :: "lua_State \<Rightarrow> nat \<Rightarrow> lua_State" where
  "lua_pop L n = L\<lparr>stack := drop n (stack L)\<rparr>"

definition lua_getglobal :: "lua_State \<Rightarrow> string \<Rightarrow> lua_State" where
  "lua_getglobal L name = L\<lparr>stack := globals L name # stack L\<rparr>"

text \<open>
  \<open>lua_setglobal\<close> pops the top of the stack into a global. The API requires a value on
  the stack; the file always pushes one just before, and on an empty stack the model
  leaves the state as it is.
\<close>

definition lua_setglobal :: "lua_State \<Rightarrow> string \<Rightarrow> lua_State" where
  "lua_setglobal L name =
     (case stack L of
        [] \<Rightarrow> L
      | v # st \<Rightarrow> L\<lparr>stack := st, globals := (globals L)(name := v)\<rparr>)"

text \<open>Assigning \<open>nil\<close> to a key of a table removes the key.\<close>

definition table_set :: "(string \<times> lua_value) list \<Rightarrow> string \<Rightarrow> lua_value \<Rightarrow> (string \<times> lua_value) list" where
  "table_set t k v = (if v = LNil then AList.delete k t else AList.update k v t)"

text \<open>
  The value at a stack index: positive indices count from the bottom of the stack,
  negative ones from the top; an index outside the stack reads as \<open>LNil\<close>.
\<close>

definition index2value :: "lua_State \<Rightarrow> int \<Rightarrow> lua_value" where
  "index2value L idx =
     (let n = int (length (stack L))
      in if 0 < idx \<and> idx \<le> n then stack L ! nat (n - idx)
         else if idx < 0 \<and> - idx \<le> n then stack L ! nat (- idx - 1)
         else LNil)"

text \<open>
  \<open>lua_setfield(L, idx, k)\<close> does \<open>t[k] = v\<close> for the table \<open>t\<close> at \<open>idx\<close> and the value
  \<open>v\<close> on top of the stack, and pops the value. The file calls it with \<open>idx = -2\<close> and a
  table there. The model covers the indices below the top; where no table is at the
  index (Lua would raise an error) it only pops the value.
\<close>

definition lua_setfield :: "lua_State \<Rightarrow> int \<Rightarrow> string \<Rightarrow> lua_State" where
  "lua_setfield L idx k =
     (case stack L of
        [] \<Rightarrow> L
      | v # st \<Rightarrow>
          (if idx \<le> - 2 \<and> nat (- idx - 2) < length st
           then (case st ! nat (- idx - 2) of
                   LTable t \<Rightarrow> L\<lparr>stack := st[nat (- idx - 2) := LTable (table_set t k v)]\<rparr>
                 | _ \<Rightarrow> L\<lparr>stack := st\<rparr>)
           else L\<lparr>stack := st\<rparr>))"

text \<open>\<open>lua_register(L, n, f)\<close> is the macro \<open>(lua_pushcfunction(L, f), lua_setglobal(L, n))\<close>.\<close>

definition lua_register :: "lua_State \<Rightarrow> string \<Rightarrow> lua_CFunction \<Rightarrow> lua_State" where
  "lua_register L n f = lua_setglobal (lua_pushcfunction L f) n"

definition lua_toboolean :: "lua_value \<Rightarrow> bool" where
  "lua_toboolean v = (v \<noteq> LNil \<and> v \<noteq> LBoolean False)"

text \<open>
  \<open>luaL_requiref(L, modname, openf, glb)\<close>: if \<open>package.loaded[modname]\<close> is not yet
  true, calls \<open>openf\<close> and stores the module it returns there; leaves the module on the
  stack; with \<open>glb\<close> non-zero also stores it in the global \<open>modname\<close>.

  What an opener does besides returning its module is left out: \<open>luaopen_base\<close> writes
  the basic functions (\<open>print\<close>, \<open>load\<close>, \<open>dofile\<close>, ...) into the global table and
  \<open>luaopen_package\<close> writes \<open>require\<close>. The model therefore speaks for \<open>package.loaded\<close>
  and for the global that carries a module's own name, and the properties below are
  stated about these only, never about the global scope as a whole.
\<close>

definition luaL_requiref :: "lua_State \<Rightarrow> string \<Rightarrow> lua_CFunction \<Rightarrow> int \<Rightarrow> lua_State" where
  "luaL_requiref L modname openf glb =
     (let m = (if lua_toboolean (loaded L modname) then loaded L modname else LModule openf);
          L1 = (if lua_toboolean (loaded L modname) then L
                else L\<lparr>loaded := (loaded L)(modname := m)\<rparr>);
          L2 = L1\<lparr>stack := m # stack L1\<rparr>
      in if glb \<noteq> 0 then L2\<lparr>globals := (globals L2)(modname := m)\<rparr> else L2)"

definition lua_newstate :: lua_State where
  "lua_newstate = \<lparr>stack = [], globals = (\<lambda>_. LNil), loaded = (\<lambda>_. LNil)\<rparr>"

subsection \<open>Host data: handles, parameters, environments\<close>

text \<open>The tags of the handles the file creates (the enumeration is declared in lua-pointer.h).\<close>

datatype LuaPointerType = STYLER | EXT_ENV | PARSED_ARGS | MT_NAMES_LIST

record LuaPointer =
  lp_type :: LuaPointerType
  lp_data :: addr

text \<open>The fields of \<open>ExtParams\<close> that the file reads.\<close>

record ExtParams =
  sandbox_lvl :: int
  params_styler :: addr
  params_args :: addr
  params_mt_names_list :: addr

record ExtensionEnv =
  state :: addr
  require_extra_run :: bool
  iter_num :: int
  styler :: addr
  selfp :: addr
  args :: addr
  mt_names_list :: addr

text \<open>Calls that leave the file for a host collaborator, in the order they are made.\<close>

datatype host_call =
    Log_debug addr addr
  | Log_warn string int
  | Provide_styler addr
  | Rescind_styler addr
  | Load_em_std_lib int
  | Load_extensions int

record world =
  lua_mem :: "addr \<Rightarrow> lua_State"
  ptr_mem :: "addr \<Rightarrow> LuaPointer"
  env_mem :: "addr \<Rightarrow> ExtensionEnv"
  live :: "addr set"
  brk :: addr
  trace :: "host_call list"

text \<open>
  What the file uses and does not define: the macros of ext-env.h and of the headers of
  the collaborators, the list of node type names of doc-struct/ast.h (its length is
  \<open>node_tree_content_type_names_len\<close>), and the collaborators themselves.

  The two loaders receive the \<open>lua_State\<close> only, as in the source, and return a status.
  Guest code they run reaches an environment only through the callables the file
  registers, of which \<open>ext_require_rerun\<close> is the one defined here.

  \<open>log_warn\<close> gives the value that \<open>ext_require_rerun\<close> tests after the call. The
  header logs.h declares \<open>log_warn\<close> with no result; the model follows ext-env.c, which
  uses one, and leaves the value to the host.
\<close>

record host =
  EM_ITER_NUM_VAR_NAME :: string
  EM_ENV_VAR_NAME :: string
  EM_ARGS_VAR_NAME :: string
  EM_MT_NAMES_LIST_VAR_NAME :: string
  EM_IMPORT_STYLESHEET_FUNC_NAME :: string
  EM_INCLUDE_FILE_FUNC_NAME :: string
  node_tree_content_type_names :: "string list"
  log_warn :: "string \<Rightarrow> int"
  provide_styler :: "ExtensionEnv \<Rightarrow> lua_State \<Rightarrow> lua_State"
  rescind_styler :: "ExtensionEnv \<Rightarrow> lua_State \<Rightarrow> lua_State"
  load_em_std_lib :: "lua_State \<Rightarrow> int \<times> lua_State"
  load_extensions :: "lua_State \<Rightarrow> ExtParams \<Rightarrow> int \<times> lua_State"

definition EM_EVAL_NODE_FUNC_NAME :: string where
  "EM_EVAL_NODE_FUNC_NAME = ''eval''"

definition EM_REQUIRE_RUNS_FUNC_NAME :: string where
  "EM_REQUIRE_RUNS_FUNC_NAME = ''requires_reiter''"

definition EM_NODE_TYPES_TABLE :: string where
  "EM_NODE_TYPES_TABLE = ''node_types''"

text \<open>The names of the standard libraries, from lualib.h.\<close>

definition LUA_LOADLIBNAME :: string where "LUA_LOADLIBNAME = ''package''"
definition LUA_COLIBNAME :: string where "LUA_COLIBNAME = ''coroutine''"
definition LUA_UTF8LIBNAME :: string where "LUA_UTF8LIBNAME = ''utf8''"
definition LUA_TABLIBNAME :: string where "LUA_TABLIBNAME = ''table''"
definition LUA_STRLIBNAME :: string where "LUA_STRLIBNAME = ''string''"
definition LUA_MATHLIBNAME :: string where "LUA_MATHLIBNAME = ''math''"
definition LUA_DBLIBNAME :: string where "LUA_DBLIBNAME = ''debug''"
definition LUA_IOLIBNAME :: string where "LUA_IOLIBNAME = ''io''"
definition LUA_OSLIBNAME :: string where "LUA_OSLIBNAME = ''os''"

subsection \<open>The capability tiers\<close>

text \<open>An entry of a \<open>luaL_Reg\<close> array; \<open>Sentinel\<close> is the closing \<open>{ NULL, NULL }\<close>.\<close>

datatype luaL_Reg = Reg string lua_CFunction | Sentinel

definition lua_std_libs_universal :: "luaL_Reg list" where
  "lua_std_libs_universal =
     [ Reg [] luaopen_base,
       Reg LUA_LOADLIBNAME luaopen_package,
       Reg LUA_COLIBNAME luaopen_coroutine,
       Reg LUA_UTF8LIBNAME luaopen_utf8,
       Reg LUA_TABLIBNAME luaopen_table,
       Reg LUA_STRLIBNAME luaopen_string,
       Reg LUA_MATHLIBNAME luaopen_math,
       Reg LUA_DBLIBNAME luaopen_debug,
       Sentinel ]"

definition lua_std_libs_restriction_lvl_1 :: "luaL_Reg list" where
  "lua_std_libs_restriction_lvl_1 = [ Reg LUA_IOLIBNAME luaopen_io, Sentinel ]"

definition lua_std_libs_restriction_lvl_0 :: "luaL_Reg list" where
  "lua_std_libs_restriction_lvl_0 = [ Reg LUA_OSLIBNAME luaopen_os, Sentinel ]"

subsection \<open>Operations on the store\<close>

definition on_lua :: "addr \<Rightarrow> (lua_State \<Rightarrow> lua_State) \<Rightarrow> world \<Rightarrow> world" where
  "on_lua s f w = w\<lparr>lua_mem := (lua_mem w)(s := f (lua_mem w s))\<rparr>"

definition on_env :: "addr \<Rightarrow> (ExtensionEnv \<Rightarrow> ExtensionEnv) \<Rightarrow> world \<Rightarrow> world" where
  "on_env e f w = w\<lparr>env_mem := (env_mem w)(e := f (env_mem w e))\<rparr>"

text \<open>
  \<open>malloc\<close> hands out a block no live pointer refers to. Running out of memory, which
  the source does not check for, is not modelled.
\<close>

definition malloc :: "world \<Rightarrow> addr \<times> world" where
  "malloc w = (brk w, w\<lparr>live := insert (brk w) (live w), brk := Suc (brk w)\<rparr>)"

definition free :: "addr \<Rightarrow> world \<Rightarrow> world" where
  "free p w = w\<lparr>live := live w - {p}\<rparr>"

definition luaL_newstate :: "world \<Rightarrow> addr \<times> world" where
  "luaL_newstate w =
     (brk w, w\<lparr>lua_mem := (lua_mem w)(brk w := lua_newstate),
               live := insert (brk w) (live w), brk := Suc (brk w)\<rparr>)"

definition lua_close :: "addr \<Rightarrow> world \<Rightarrow> world" where
  "lua_close s w = w\<lparr>live := live w - {s}\<rparr>"

text \<open>
  \<open>luaL_error\<close> pushes the message and raises a Lua error: control leaves the C
  function, which is the outcome \<open>Raised\<close>. The store is the one at the raise.
\<close>

datatype 'a outcome = Returned 'a | Raised string

definition luaL_error :: "addr \<Rightarrow> string \<Rightarrow> world \<Rightarrow> 'a outcome \<times> world" where
  "luaL_error s msg w = (Raised msg, on_lua s (\<lambda>L. lua_pushstring L msg) w)"

text \<open>
  Modelled from the spec: \<open>make_lua_pointer\<close>, \<open>dest_lua_pointer\<close> and
  \<open>to_userdata_pointer\<close> of lua-pointer.c, which is not among the sources. A tagged
  handle is a kind and a non-owning pointer; it is retrieved from the runtime by one
  operation that checks the kind and fails closed. \<open>to_userdata_pointer\<close> gives
  \<open>Some\<close> of the handle's pointer where the C function stores it through \<open>val\<close> and
  returns 0, and \<open>None\<close> where it returns non-zero.
\<close>

definition make_lua_pointer :: "addr \<Rightarrow> LuaPointerType \<Rightarrow> addr \<Rightarrow> world \<Rightarrow> world" where
  "make_lua_pointer p t d w = w\<lparr>ptr_mem := (ptr_mem w)(p := \<lparr>lp_type = t, lp_data = d\<rparr>)\<rparr>"

definition dest_lua_pointer :: "addr \<Rightarrow> world \<Rightarrow> world" where
  "dest_lua_pointer p w = w"

definition to_userdata_pointer :: "addr \<Rightarrow> int \<Rightarrow> LuaPointerType \<Rightarrow> world \<Rightarrow> addr option" where
  "to_userdata_pointer s idx t w =
     (case index2value (lua_mem w s) idx of
        LLightUserdata p \<Rightarrow>
          if lp_type (ptr_mem w p) = t then Some (lp_data (ptr_mem w p)) else None
      | _ \<Rightarrow> None)"

text \<open>Calls to the collaborators: each is recorded, and its effect is the host's.\<close>

definition log_debug :: "addr \<Rightarrow> addr \<Rightarrow> world \<Rightarrow> world" where
  "log_debug s e w = w\<lparr>trace := trace w @ [Log_debug s e]\<rparr>"

definition call_log_warn :: "host \<Rightarrow> string \<Rightarrow> world \<Rightarrow> int \<times> world" where
  "call_log_warn h msg w = (log_warn h msg, w\<lparr>trace := trace w @ [Log_warn msg (log_warn h msg)]\<rparr>)"

text \<open>
  Modelled from the spec: \<open>provide_styler\<close> and \<open>rescind_styler\<close> of style.c, which is
  not among the sources. They attach the styler to the environment's runtime and detach
  it again, and leave the environment itself as it is.
\<close>

definition call_provide_styler :: "host \<Rightarrow> addr \<Rightarrow> world \<Rightarrow> world" where
  "call_provide_styler h e w =
     (on_lua (state (env_mem w e)) (provide_styler h (env_mem w e)) w)
       \<lparr>trace := trace w @ [Provide_styler e]\<rparr>"

definition call_rescind_styler :: "host \<Rightarrow> addr \<Rightarrow> world \<Rightarrow> world" where
  "call_rescind_styler h e w =
     (on_lua (state (env_mem w e)) (rescind_styler h (env_mem w e)) w)
       \<lparr>trace := trace w @ [Rescind_styler e]\<rparr>"

definition call_load_em_std_lib :: "host \<Rightarrow> addr \<Rightarrow> world \<Rightarrow> int \<times> world" where
  "call_load_em_std_lib h s w =
     (case load_em_std_lib h (lua_mem w s) of
        (rc, L) \<Rightarrow> (rc, w\<lparr>lua_mem := (lua_mem w)(s := L), trace := trace w @ [Load_em_std_lib rc]\<rparr>))"

definition call_load_extensions :: "host \<Rightarrow> addr \<Rightarrow> ExtParams \<Rightarrow> world \<Rightarrow> int \<times> world" where
  "call_load_extensions h s params w =
     (case load_extensions h (lua_mem w s) params of
        (rc, L) \<Rightarrow> (rc, w\<lparr>lua_mem := (lua_mem w)(s := L), trace := trace w @ [Load_extensions rc]\<rparr>))"

subsection \<open>The functions of ext-env.c\<close>

text \<open>
  The loop of \<open>set_globals\<close> over the node type names. The counter is a \<open>size_t\<close> and
  \<open>lua_pushinteger\<close> takes a \<open>lua_Integer\<close>, a signed 64-bit integer: the conversion
  is written out.
\<close>

definition size_t_to_lua_Integer :: "nat \<Rightarrow> int" where
  "size_t_to_lua_Integer i = sint (word_of_nat i :: 64 word)"

function node_types_loop :: "host \<Rightarrow> addr \<Rightarrow> nat \<Rightarrow> world \<Rightarrow> world" where
  "node_types_loop h s i w =
     (if i < length (node_tree_content_type_names h)
      then node_types_loop h s (Suc i)
             (on_lua s (\<lambda>L. lua_setfield L (- 2) (node_tree_content_type_names h ! i))
               (on_lua s (\<lambda>L. lua_pushinteger L (size_t_to_lua_Integer i)) w))
      else w)"
  by pat_completeness auto
termination
  by (relation "measure (\<lambda>(h, s, i, w). length (node_tree_content_type_names h) - i)") auto

declare node_types_loop.simps [simp del]

definition set_globals :: "host \<Rightarrow> addr \<Rightarrow> ExtParams \<Rightarrow> world \<Rightarrow> world" where
  "set_globals h e params w0 =
     (let s = state (env_mem w0 e);
          \<comment> \<open>Store the iteration number\<close>
          w1 = on_lua s (\<lambda>L. lua_pushinteger L 0) w0;
          w2 = on_lua s (\<lambda>L. lua_setglobal L (EM_ITER_NUM_VAR_NAME h)) w1;
          \<comment> \<open>Allow the environment to access itself\<close>
          (p, w3) = malloc w2;
          w4 = on_env e (\<lambda>x. x\<lparr>selfp := p\<rparr>) w3;
          w5 = make_lua_pointer (selfp (env_mem w4 e)) EXT_ENV e w4;
          w6 = on_lua s (\<lambda>L. lua_pushlightuserdata L (selfp (env_mem w5 e))) w5;
          w7 = on_lua s (\<lambda>L. lua_setglobal L (EM_ENV_VAR_NAME h)) w6;
          \<comment> \<open>Allow pretty names for the node types\<close>
          w8 = on_lua s lua_newtable w7;
          w9 = node_types_loop h s 0 w8;
          w10 = on_lua s (\<lambda>L. lua_setglobal L EM_NODE_TYPES_TABLE) w9;
          \<comment> \<open>Store the args in raw form\<close>
          (q, w11) = malloc w10;
          w12 = on_env e (\<lambda>x. x\<lparr>args := q\<rparr>) w11;
          w13 = make_lua_pointer (args (env_mem w12 e)) PARSED_ARGS (params_args params) w12;
          w14 = on_lua s (\<lambda>L. lua_pushlightuserdata L (args (env_mem w13 e))) w13;
          w15 = on_lua s (\<lambda>L. lua_setglobal L (EM_ARGS_VAR_NAME h)) w14;
          \<comment> \<open>Store the names list\<close>
          (r, w16) = malloc w15;
          w17 = on_env e (\<lambda>x. x\<lparr>mt_names_list := r\<rparr>) w16;
          w18 = make_lua_pointer (mt_names_list (env_mem w17 e)) MT_NAMES_LIST
                  (params_mt_names_list params) w17;
          w19 = on_lua s (\<lambda>L. lua_pushlightuserdata L (mt_names_list (env_mem w18 e))) w18
      in on_lua s (\<lambda>L. lua_setglobal L (EM_MT_NAMES_LIST_VAR_NAME h)) w19)"

text \<open>
  The loop of \<open>load_library_set\<close> runs until the entry whose \<open>func\<close> is \<open>NULL\<close>. Each of
  the three arrays ends with that entry, so the equation for the empty list, where the C
  loop would run past the array, is not reached from them.
\<close>

fun load_library_set :: "addr \<Rightarrow> luaL_Reg list \<Rightarrow> world \<Rightarrow> world" where
  "load_library_set s [] w = w"
| "load_library_set s (Sentinel # lib) w = w"
| "load_library_set s (Reg name func # lib) w =
     load_library_set s lib
       (on_lua s (\<lambda>L. lua_pop L 1) \<comment> \<open>remove lib\<close>
         (on_lua s (\<lambda>L. luaL_requiref L name func 1) w))"

text \<open>The macro \<open>LOAD_LIBRARY_SET(lvl, s, lib)\<close>, which reads \<open>params\<close> of its caller.\<close>

definition LOAD_LIBRARY_SET :: "ExtParams \<Rightarrow> int \<Rightarrow> addr \<Rightarrow> luaL_Reg list \<Rightarrow> world \<Rightarrow> world" where
  "LOAD_LIBRARY_SET params lvl s lib w =
     (if sandbox_lvl params \<le> lvl then load_library_set s lib w else w)"

definition load_em_std_functions :: "host \<Rightarrow> addr \<Rightarrow> world \<Rightarrow> world" where
  "load_em_std_functions h s w0 =
     (let w1 = on_lua s (\<lambda>L. lua_register L EM_EVAL_NODE_FUNC_NAME ext_eval_tree) w0;
          w2 = on_lua s (\<lambda>L. lua_register L (EM_IMPORT_STYLESHEET_FUNC_NAME h) ext_import_stylesheet) w1;
          w3 = on_lua s (\<lambda>L. lua_register L EM_REQUIRE_RUNS_FUNC_NAME ext_require_rerun_ptr) w2
      in on_lua s (\<lambda>L. lua_register L (EM_INCLUDE_FILE_FUNC_NAME h) ext_include_file) w3)"

text \<open>The three tiers, the first three statements of \<open>load_libraries\<close>.\<close>

definition load_library_tiers :: "addr \<Rightarrow> ExtParams \<Rightarrow> world \<Rightarrow> world" where
  "load_library_tiers s params w0 =
     (let w1 = LOAD_LIBRARY_SET params 2 s lua_std_libs_universal w0;
          w2 = LOAD_LIBRARY_SET params 1 s lua_std_libs_restriction_lvl_1 w1
      in LOAD_LIBRARY_SET params 0 s lua_std_libs_restriction_lvl_0 w2)"

definition load_libraries :: "host \<Rightarrow> addr \<Rightarrow> ExtParams \<Rightarrow> world \<Rightarrow> int \<times> world" where
  "load_libraries h s params w0 =
     (let w1 = load_library_tiers s params w0;
          w2 = load_em_std_functions h s w1
      in call_load_em_std_lib h s w2)"

definition make_ext_env :: "host \<Rightarrow> addr \<Rightarrow> ExtParams \<Rightarrow> world \<Rightarrow> int \<times> world" where
  "make_ext_env h ext params w0 =
     (let (s, w1) = luaL_newstate w0;
          w2 = on_env ext (\<lambda>x. x\<lparr>state := s\<rparr>) w1;
          w3 = on_env ext (\<lambda>x. x\<lparr>require_extra_run := True\<rparr>) w2;
          w4 = on_env ext (\<lambda>x. x\<lparr>iter_num := 0\<rparr>) w3;
          (p, w5) = malloc w4;
          w6 = on_env ext (\<lambda>x. x\<lparr>styler := p\<rparr>) w5;
          w7 = make_lua_pointer (styler (env_mem w6 ext)) STYLER (params_styler params) w6;
          w8 = log_debug (state (env_mem w7 ext)) ext w7;
          w9 = call_provide_styler h ext w8;
          w10 = set_globals h ext params w9;
          (rc, w11) = load_libraries h (state (env_mem w10 ext)) params w10
      in if rc \<noteq> 0 then (rc, w11)
         else call_load_extensions h (state (env_mem w11 ext)) params w11)"

definition dest_ext_env :: "addr \<Rightarrow> world \<Rightarrow> world" where
  "dest_ext_env ext w0 =
     (let w1 = lua_close (state (env_mem w0 ext)) w0;
          w2 = dest_lua_pointer (mt_names_list (env_mem w1 ext)) w1;
          w3 = free (mt_names_list (env_mem w2 ext)) w2;
          w4 = dest_lua_pointer (args (env_mem w3 ext)) w3;
          w5 = free (args (env_mem w4 ext)) w4;
          w6 = dest_lua_pointer (selfp (env_mem w5 ext)) w5;
          w7 = free (selfp (env_mem w6 ext)) w6;
          w8 = dest_lua_pointer (styler (env_mem w7 ext)) w7
      in free (styler (env_mem w8 ext)) w8)"

definition finalise_env_for_typesetting :: "host \<Rightarrow> addr \<Rightarrow> world \<Rightarrow> world" where
  "finalise_env_for_typesetting h e w = call_rescind_styler h e w"

text \<open>
  \<open>ext_require_rerun\<close>, the C function behind \<open>requires_reiter\<close>. On entry the stack
  of \<open>s\<close> holds the arguments of the call. A statement after a \<open>luaL_error\<close> is not
  reached. The result is the number of values the function returns to Lua.
\<close>

definition ext_require_rerun :: "host \<Rightarrow> addr \<Rightarrow> world \<Rightarrow> int outcome \<times> world" where
  "ext_require_rerun h s w0 =
     (case (if lua_gettop (lua_mem w0 s) \<noteq> 0
            then (case call_log_warn h (''Arguments to '' @ EM_REQUIRE_RUNS_FUNC_NAME @ '' are ignored'') w0 of
                    (r, w) \<Rightarrow> if r \<noteq> 0 then luaL_error s ''Warnings are fatal'' w
                              else (Returned (), w))
            else (Returned (), w0)) of
        (Raised msg, w1) \<Rightarrow> (Raised msg, w1)
      | (Returned _, w1) \<Rightarrow>
          (let w2 = on_lua s (\<lambda>L. lua_getglobal L (EM_ENV_VAR_NAME h)) w1;
               r = to_userdata_pointer s (- 1) EXT_ENV w2;
               w3 = on_lua s (\<lambda>L. lua_pop L 1) w2
           in (case r of
                 None \<Rightarrow> luaL_error s ''Invalid internal value'' w3
               | Some e \<Rightarrow> (Returned 0, on_env e (\<lambda>x. x\<lparr>require_extra_run := True\<rparr>) w3))))"

subsection \<open>Notions the properties are stated with\<close>

text \<open>
  The statements of \<open>make_ext_env\<close> up to the call of \<open>load_libraries\<close>; lemma
  \<open>make_ext_env_unfold\<close> relates the two.
\<close>

definition make_ext_env_init :: "host \<Rightarrow> addr \<Rightarrow> ExtParams \<Rightarrow> world \<Rightarrow> world" where
  "make_ext_env_init h ext params w0 =
     (let (s, w1) = luaL_newstate w0;
          w2 = on_env ext (\<lambda>x. x\<lparr>state := s\<rparr>) w1;
          w3 = on_env ext (\<lambda>x. x\<lparr>require_extra_run := True\<rparr>) w2;
          w4 = on_env ext (\<lambda>x. x\<lparr>iter_num := 0\<rparr>) w3;
          (p, w5) = malloc w4;
          w6 = on_env ext (\<lambda>x. x\<lparr>styler := p\<rparr>) w5;
          w7 = make_lua_pointer (styler (env_mem w6 ext)) STYLER (params_styler params) w6;
          w8 = log_debug (state (env_mem w7 ext)) ext w7;
          w9 = call_provide_styler h ext w8
      in set_globals h ext params w9)"

text \<open>The message \<open>ext_require_rerun\<close> passes to \<open>log_warn\<close>, with the format filled in.\<close>

definition warning :: string where
  "warning = ''Arguments to requires_reiter are ignored''"

text \<open>
  The entry of an array that a name selects: the first one of that name before the
  sentinel, where the loop of \<open>load_library_set\<close> stops.
\<close>

fun reg_lookup :: "luaL_Reg list \<Rightarrow> string \<Rightarrow> lua_CFunction option" where
  "reg_lookup [] n = None"
| "reg_lookup (Sentinel # lib) n = None"
| "reg_lookup (Reg name func # lib) n = (if n = name then Some func else reg_lookup lib n)"

definition reg_names :: "luaL_Reg list \<Rightarrow> string set" where
  "reg_names lib = {n. reg_lookup lib n \<noteq> None}"

text \<open>The libraries a runtime has loaded: the names that \<open>package.loaded\<close> holds.\<close>

definition loaded_libraries :: "lua_State \<Rightarrow> string set" where
  "loaded_libraries L = {n. lua_toboolean (loaded L n)}"

text \<open>
  The libraries the runtime \<open>s\<close> has loaded once the tiers have run at a sandbox level,
  everything else being equal.
\<close>

definition libraries_at_level :: "addr \<Rightarrow> ExtParams \<Rightarrow> world \<Rightarrow> int \<Rightarrow> string set" where
  "libraries_at_level s params w lvl =
     loaded_libraries (lua_mem (load_library_tiers s (params\<lparr>sandbox_lvl := lvl\<rparr>) w) s)"

text \<open>
  What a tier must look like after \<open>load_library_tiers\<close> took the runtime from \<open>L\<close> to
  \<open>L'\<close>, for a row of maximum level \<open>k\<close>: at a level up to \<open>k\<close> every entry \<open>Reg n f\<close>
  of the row (\<open>reg_lookup lib n = Some f\<close>) is in
  \<open>package.loaded\<close> and in the global of its name, and is the module of its opener
  unless the name had been loaded before; above \<open>k\<close> the names of the row are as they
  were.
\<close>

definition row_loaded_iff :: "int \<Rightarrow> luaL_Reg list \<Rightarrow> int \<Rightarrow> lua_State \<Rightarrow> lua_State \<Rightarrow> bool" where
  "row_loaded_iff k lib lvl L L' =
     (\<forall>n f. reg_lookup lib n = Some f \<longrightarrow>
        (if lvl \<le> k
         then lua_toboolean (loaded L' n) \<and> globals L' n = loaded L' n \<and>
              (\<not> lua_toboolean (loaded L n) \<longrightarrow> loaded L' n = LModule f)
         else loaded L' n = loaded L n \<and> globals L' n = globals L n))"

text \<open>
  The operations of the file as the host and the guest can invoke them. A guest call of
  \<open>requires_reiter\<close> runs \<open>ext_require_rerun\<close> on a stack that holds the arguments.
\<close>

datatype core_op =
    Create addr ExtParams
  | Finalise addr
  | Destroy addr
  | Requires_reiter addr "lua_value list"

fun core_step :: "host \<Rightarrow> core_op \<Rightarrow> world \<Rightarrow> world" where
  "core_step h (Create ext params) w = snd (make_ext_env h ext params w)"
| "core_step h (Finalise e) w = finalise_env_for_typesetting h e w"
| "core_step h (Destroy ext) w = dest_ext_env ext w"
| "core_step h (Requires_reiter s as) w =
     snd (ext_require_rerun h s (on_lua s (\<lambda>L. L\<lparr>stack := as\<rparr>) w))"

definition core_run :: "host \<Rightarrow> core_op list \<Rightarrow> world \<Rightarrow> world" where
  "core_run h ops w = fold (core_step h) ops w"

subsection \<open>A host, a store and parameters for the worked examples\<close>

text \<open>
  The strings stand in for the macros of ext-env.h, and the collaborators do nothing and
  report success; \<open>fatal_host\<close> has warnings configured as fatal and \<open>failing_host\<close> a
  standard library that fails to load.
\<close>

definition example_host :: host where
  "example_host =
     \<lparr>EM_ITER_NUM_VAR_NAME = ''em_iter'', EM_ENV_VAR_NAME = ''em_env'',
      EM_ARGS_VAR_NAME = ''em_args'', EM_MT_NAMES_LIST_VAR_NAME = ''em_mt_names'',
      EM_IMPORT_STYLESHEET_FUNC_NAME = ''stylesheet'', EM_INCLUDE_FILE_FUNC_NAME = ''include'',
      node_tree_content_type_names = [''word'', ''call'', ''content''],
      log_warn = (\<lambda>_. 0),
      provide_styler = (\<lambda>_ L. L), rescind_styler = (\<lambda>_ L. L),
      load_em_std_lib = (\<lambda>L. (0, L)), load_extensions = (\<lambda>L _. (0, L))\<rparr>"

definition fatal_host :: host where
  "fatal_host = example_host\<lparr>log_warn := (\<lambda>_. 1)\<rparr>"

definition failing_host :: host where
  "failing_host = example_host\<lparr>load_em_std_lib := (\<lambda>L. (7, L))\<rparr>"

definition example_world :: world where
  "example_world =
     \<lparr>lua_mem = (\<lambda>_. lua_newstate),
      ptr_mem = (\<lambda>_. \<lparr>lp_type = STYLER, lp_data = 0\<rparr>),
      env_mem = (\<lambda>_. \<lparr>state = 0, require_extra_run = False, iter_num = 5, styler = 0,
                        selfp = 0, args = 0, mt_names_list = 0\<rparr>),
      live = {}, brk = 10, trace = []\<rparr>"

definition example_params :: ExtParams where
  "example_params =
     \<lparr>sandbox_lvl = 2, params_styler = 1, params_args = 2, params_mt_names_list = 3\<rparr>"

text \<open>
  The store once \<open>make_ext_env\<close> has run on the example, and the same store after the
  driver has started a pass and cleared the rerun flag.
\<close>

definition created_world :: world where
  "created_world = snd (make_ext_env example_host 0 example_params example_world)"

definition pass_started :: world where
  "pass_started = on_env 0 (\<lambda>x. x\<lparr>require_extra_run := False\<rparr>) created_world"

section \<open>Properties\<close>

subsection \<open>What each operation leaves of the store\<close>

lemma on_lua_sel [simp]:
  "env_mem (on_lua s f w) = env_mem w"
  "ptr_mem (on_lua s f w) = ptr_mem w"
  "live (on_lua s f w) = live w"
  "brk (on_lua s f w) = brk w"
  "trace (on_lua s f w) = trace w"
  "lua_mem (on_lua s f w) = (lua_mem w)(s := f (lua_mem w s))"
  by (simp_all add: on_lua_def)

lemma on_env_sel [simp]:
  "lua_mem (on_env e f w) = lua_mem w"
  "ptr_mem (on_env e f w) = ptr_mem w"
  "live (on_env e f w) = live w"
  "brk (on_env e f w) = brk w"
  "trace (on_env e f w) = trace w"
  "env_mem (on_env e f w) = (env_mem w)(e := f (env_mem w e))"
  by (simp_all add: on_env_def)

lemma make_lua_pointer_sel [simp]:
  "lua_mem (make_lua_pointer p t d w) = lua_mem w"
  "env_mem (make_lua_pointer p t d w) = env_mem w"
  "live (make_lua_pointer p t d w) = live w"
  "brk (make_lua_pointer p t d w) = brk w"
  "trace (make_lua_pointer p t d w) = trace w"
  "ptr_mem (make_lua_pointer p t d w) = (ptr_mem w)(p := \<lparr>lp_type = t, lp_data = d\<rparr>)"
  by (simp_all add: make_lua_pointer_def)

lemma luaL_newstate_sel [simp]:
  "fst (luaL_newstate w) = brk w"
  "env_mem (snd (luaL_newstate w)) = env_mem w"
  "ptr_mem (snd (luaL_newstate w)) = ptr_mem w"
  "trace (snd (luaL_newstate w)) = trace w"
  "brk (snd (luaL_newstate w)) = Suc (brk w)"
  "live (snd (luaL_newstate w)) = insert (brk w) (live w)"
  "lua_mem (snd (luaL_newstate w)) = (lua_mem w)(brk w := lua_newstate)"
  by (simp_all add: luaL_newstate_def)

lemma malloc_sel [simp]:
  "fst (malloc w) = brk w"
  "env_mem (snd (malloc w)) = env_mem w"
  "ptr_mem (snd (malloc w)) = ptr_mem w"
  "trace (snd (malloc w)) = trace w"
  "brk (snd (malloc w)) = Suc (brk w)"
  "live (snd (malloc w)) = insert (brk w) (live w)"
  "lua_mem (snd (malloc w)) = lua_mem w"
  by (simp_all add: malloc_def)

lemma free_sel [simp]:
  "env_mem (free p w) = env_mem w"
  "lua_mem (free p w) = lua_mem w"
  "ptr_mem (free p w) = ptr_mem w"
  "trace (free p w) = trace w"
  "brk (free p w) = brk w"
  by (simp_all add: free_def)

lemma lua_close_sel [simp]:
  "env_mem (lua_close p w) = env_mem w"
  "lua_mem (lua_close p w) = lua_mem w"
  "ptr_mem (lua_close p w) = ptr_mem w"
  "trace (lua_close p w) = trace w"
  "brk (lua_close p w) = brk w"
  by (simp_all add: lua_close_def)

lemma log_debug_sel [simp]:
  "env_mem (log_debug s e w) = env_mem w"
  "ptr_mem (log_debug s e w) = ptr_mem w"
  "trace (log_debug s e w) = trace w @ [Log_debug s e]"
  "brk (log_debug s e w) = brk w"
  "live (log_debug s e w) = live w"
  "lua_mem (log_debug s e w) = lua_mem w"
  by (simp_all add: log_debug_def)

lemma call_provide_styler_sel [simp]:
  "env_mem (call_provide_styler h e w) = env_mem w"
  "ptr_mem (call_provide_styler h e w) = ptr_mem w"
  "trace (call_provide_styler h e w) = trace w @ [Provide_styler e]"
  "brk (call_provide_styler h e w) = brk w"
  "live (call_provide_styler h e w) = live w"
  by (simp_all add: call_provide_styler_def)

lemma trace_upd_sel [simp]:
  "lua_mem (w\<lparr>trace := t\<rparr>) = lua_mem w"
  by simp

lemma on_lua_on_lua [simp]: "on_lua s f (on_lua s g w) = on_lua s (\<lambda>L. f (g L)) w"
  by (simp add: on_lua_def)

lemma on_lua_id [simp]: "on_lua s (\<lambda>L. L) w = w"
  by (simp add: on_lua_def)

lemma on_lua_trace: "on_lua s f (w\<lparr>trace := tr\<rparr>) = (on_lua s f w)\<lparr>trace := tr\<rparr>"
  by (simp add: on_lua_def)

lemma push_pop [simp]: "lua_pop (lua_getglobal L n) (Suc 0) = L"
  by (simp add: lua_pop_def lua_getglobal_def)

lemma to_userdata_pointer_trace [simp]:
  "to_userdata_pointer s i t (w\<lparr>trace := tr\<rparr>) = to_userdata_pointer s i t w"
  by (simp add: to_userdata_pointer_def index2value_def split: lua_value.split)

subsection \<open>The global injector\<close>

lemma node_types_loop_frame:
  "env_mem (node_types_loop h s i w) = env_mem w \<and>
   ptr_mem (node_types_loop h s i w) = ptr_mem w \<and>
   live (node_types_loop h s i w) = live w \<and>
   brk (node_types_loop h s i w) = brk w \<and>
   trace (node_types_loop h s i w) = trace w"
proof (induction h s i w rule: node_types_loop.induct)
  case (1 h s i w)
  show ?case
  proof (cases "i < length (node_tree_content_type_names h)")
    case True
    with 1 show ?thesis by (subst (1 2 3 4 5) node_types_loop.simps) simp
  next
    case False
    then show ?thesis by (subst (1 2 3 4 5) node_types_loop.simps) simp
  qed
qed

lemma set_globals_env:
  "env_mem (set_globals h e params w) =
     (env_mem w)(e := (env_mem w e)\<lparr>selfp := brk w, args := Suc (brk w), mt_names_list := Suc (Suc (brk w))\<rparr>)"
  by (simp add: set_globals_def Let_def malloc_def node_types_loop_frame fun_eq_iff)

lemma set_globals_trace: "trace (set_globals h e params w) = trace w"
  by (simp add: set_globals_def Let_def malloc_def node_types_loop_frame)

lemma set_globals_ptr:
  "ptr_mem (set_globals h e params w) =
     (ptr_mem w)(brk w := \<lparr>lp_type = EXT_ENV, lp_data = e\<rparr>,
                 Suc (brk w) := \<lparr>lp_type = PARSED_ARGS, lp_data = params_args params\<rparr>,
                 Suc (Suc (brk w)) := \<lparr>lp_type = MT_NAMES_LIST, lp_data = params_mt_names_list params\<rparr>)"
  by (simp add: set_globals_def Let_def split_beta node_types_loop_frame)

text \<open>
  A counter below \<open>2^63\<close> is pushed as itself. The loop assigns the fields in the order
  of the list; when the names are distinct each assignment adds an entry at the end.
\<close>

lemma size_t_to_lua_Integer_small:
  assumes "i < 2 ^ 63"
  shows "size_t_to_lua_Integer i = int i"
proof -
  have "int i < int (2 ^ 63)" using assms by (simp only: of_nat_less_iff)
  then have "int i < 2 ^ 63" by simp
  then have "signed_take_bit 63 (int i) = int i"
    by (intro signed_take_bit_int_eq_self) simp_all
  then show ?thesis
    by (simp add: size_t_to_lua_Integer_def signed_of_nat)
qed

lemma update_fresh: "k \<notin> fst ` set t \<Longrightarrow> AList.update k v t = t @ [(k, v)]"
  by (induction t) auto

lemma node_types_loop_lua:
  assumes "stack (lua_mem w s) = LTable t # st"
  shows "lua_mem (node_types_loop h s i w) =
           (lua_mem w)(s := (lua_mem w s)\<lparr>stack :=
              LTable (fold (\<lambda>j. AList.update (node_tree_content_type_names h ! j)
                                  (LInteger (size_t_to_lua_Integer j)))
                        [i..<length (node_tree_content_type_names h)] t) # st\<rparr>)"
  using assms
proof (induction h s i w arbitrary: t rule: node_types_loop.induct)
  case (1 h s i w)
  show ?case
  proof (cases "i < length (node_tree_content_type_names h)")
    case True
    let ?w' = "on_lua s (\<lambda>L. lua_setfield L (- 2) (node_tree_content_type_names h ! i))
                 (on_lua s (\<lambda>L. lua_pushinteger L (size_t_to_lua_Integer i)) w)"
    let ?t' = "AList.update (node_tree_content_type_names h ! i) (LInteger (size_t_to_lua_Integer i)) t"
    have st': "stack (lua_mem ?w' s) = LTable ?t' # st"
      using "1.prems" by (simp add: lua_setfield_def lua_pushinteger_def table_set_def)
    have mem': "lua_mem ?w' = (lua_mem w)(s := (lua_mem w s)\<lparr>stack := LTable ?t' # st\<rparr>)"
      using "1.prems" by (simp add: lua_setfield_def lua_pushinteger_def table_set_def)
    have "lua_mem (node_types_loop h s i w) = lua_mem (node_types_loop h s (Suc i) ?w')"
      using True by (subst node_types_loop.simps) simp
    also have "\<dots> = (lua_mem ?w')(s := (lua_mem ?w' s)\<lparr>stack :=
              LTable (fold (\<lambda>j. AList.update (node_tree_content_type_names h ! j)
                                  (LInteger (size_t_to_lua_Integer j)))
                        [Suc i..<length (node_tree_content_type_names h)] ?t') # st\<rparr>)"
      using True st' by (rule "1.IH")
    also have "\<dots> = (lua_mem w)(s := (lua_mem w s)\<lparr>stack :=
              LTable (fold (\<lambda>j. AList.update (node_tree_content_type_names h ! j)
                                  (LInteger (size_t_to_lua_Integer j)))
                        [Suc i..<length (node_tree_content_type_names h)] ?t') # st\<rparr>)"
      unfolding mem' by simp
    finally show ?thesis
      using True by (simp add: upt_conv_Cons)
  next
    case False
    then show ?thesis
      by (subst node_types_loop.simps) (simp add: "1.prems" [symmetric])
  qed
qed

lemma fold_update_distinct:
  assumes "distinct (map fst t @ drop i names)" "i \<le> length names"
  shows "fold (\<lambda>j. AList.update (names ! j) (f j)) [i..<length names] t =
           t @ zip (drop i names) (map f [i..<length names])"
  using assms
proof (induction "length names - i" arbitrary: i t)
  case 0
  then show ?case by simp
next
  case (Suc d)
  then have lt: "i < length names" by simp
  have dr: "drop i names = names ! i # drop (Suc i) names"
    using lt by (simp add: Cons_nth_drop_Suc)
  have fresh: "names ! i \<notin> fst ` set t"
    using Suc.prems(1) dr by auto
  have d': "distinct (map fst (t @ [(names ! i, f i)]) @ drop (Suc i) names)"
    using Suc.prems(1) dr by auto
  have "fold (\<lambda>j. AList.update (names ! j) (f j)) [Suc i..<length names] (t @ [(names ! i, f i)]) =
          (t @ [(names ! i, f i)]) @ zip (drop (Suc i) names) (map f [Suc i..<length names])"
    using Suc.hyps(2) lt d' by (intro Suc.hyps(1)) simp_all
  then show ?case
    using lt fresh by (simp add: upt_conv_Cons update_fresh dr)
qed

lemma node_table_distinct:
  assumes "distinct names" "length names \<le> 2 ^ 63"
  shows "fold (\<lambda>j. AList.update (names ! j) (LInteger (size_t_to_lua_Integer j))) [0..<length names] [] =
           zip names (map (\<lambda>j. LInteger (int j)) [0..<length names])"
proof -
  have "fold (\<lambda>j. AList.update (names ! j) (LInteger (size_t_to_lua_Integer j))) [0..<length names] [] =
          [] @ zip (drop 0 names) (map (\<lambda>j. LInteger (size_t_to_lua_Integer j)) [0..<length names])"
    using assms(1) by (intro fold_update_distinct) simp_all
  moreover have "map (\<lambda>j. LInteger (size_t_to_lua_Integer j)) [0..<length names] =
                 map (\<lambda>j. LInteger (int j)) [0..<length names]"
    using assms(2) by (intro map_cong refl) (simp add: size_t_to_lua_Integer_small)
  ultimately show ?thesis by simp
qed

lemma set_globals_lua:
  "lua_mem (set_globals h e params w) (state (env_mem w e)) =
     (lua_mem w (state (env_mem w e)))\<lparr>globals :=
        (globals (lua_mem w (state (env_mem w e))))
          (EM_ITER_NUM_VAR_NAME h := LInteger 0,
           EM_ENV_VAR_NAME h := LLightUserdata (brk w),
           EM_NODE_TYPES_TABLE :=
             LTable (fold (\<lambda>j. AList.update (node_tree_content_type_names h ! j)
                                 (LInteger (size_t_to_lua_Integer j)))
                       [0..<length (node_tree_content_type_names h)] []),
           EM_ARGS_VAR_NAME h := LLightUserdata (Suc (brk w)),
           EM_MT_NAMES_LIST_VAR_NAME h := LLightUserdata (Suc (Suc (brk w))))\<rparr>"
  by (simp add: set_globals_def Let_def split_beta node_types_loop_frame node_types_loop_lua
      lua_pushinteger_def lua_setglobal_def lua_pushlightuserdata_def lua_newtable_def)

text \<open>
  C7: the table that \<open>set_globals\<close> stores in the global \<open>node_types\<close> has one entry for
  each content-type name, in the order of the host's list, and maps the name at position
  \<open>i\<close> to the integer \<open>i\<close>. The names are taken to be distinct and fewer than \<open>2^63\<close>, and
  the two globals that \<open>set_globals\<close> stores afterwards to have other names than the
  table.
\<close>

theorem node_types_table:
  assumes "distinct (node_tree_content_type_names h)"
    and "length (node_tree_content_type_names h) \<le> 2 ^ 63"
    and "EM_ARGS_VAR_NAME h \<noteq> EM_NODE_TYPES_TABLE"
    and "EM_MT_NAMES_LIST_VAR_NAME h \<noteq> EM_NODE_TYPES_TABLE"
  shows "\<exists>t. globals (lua_mem (set_globals h e params w) (state (env_mem w e))) EM_NODE_TYPES_TABLE = LTable t \<and>
             map fst t = node_tree_content_type_names h \<and>
             (\<forall>i < length (node_tree_content_type_names h).
                map_of t (node_tree_content_type_names h ! i) = Some (LInteger (int i)))"
proof -
  let ?names = "node_tree_content_type_names h"
  let ?t = "zip ?names (map (\<lambda>j. LInteger (int j)) [0..<length ?names])"
  have g: "globals (lua_mem (set_globals h e params w) (state (env_mem w e))) EM_NODE_TYPES_TABLE = LTable ?t"
    using assms by (simp add: set_globals_lua node_table_distinct)
  have k: "map fst ?t = ?names" by simp
  have v: "map_of ?t (?names ! i) = Some (LInteger (int i))" if "i < length ?names" for i
  proof -
    have "?t ! i = (?names ! i, LInteger (int i))" using that by simp
    moreover have "i < length ?t" using that by simp
    moreover have "distinct (map fst ?t)" using assms(1) by (simp only: k)
    ultimately show ?thesis by (metis map_of_eq_Some_iff nth_mem)
  qed
  from g k v show ?thesis by blast
qed

theorem node_types_table_witness:
  "globals (lua_mem (set_globals example_host 0 example_params example_world) 0) ''node_types'' =
     LTable [(''word'', LInteger 0), (''call'', LInteger 1), (''content'', LInteger 2)]"
proof -
  have d: "distinct (node_tree_content_type_names example_host)"
    by (simp add: example_host_def)
  have l: "length (node_tree_content_type_names example_host) \<le> 2 ^ 63"
    by (simp add: example_host_def)
  have a: "EM_ARGS_VAR_NAME example_host \<noteq> EM_NODE_TYPES_TABLE"
    by (simp add: example_host_def EM_NODE_TYPES_TABLE_def)
  have m: "EM_MT_NAMES_LIST_VAR_NAME example_host \<noteq> EM_NODE_TYPES_TABLE"
    by (simp add: example_host_def EM_NODE_TYPES_TABLE_def)
  have s: "state (env_mem example_world 0) = 0"
    by (simp add: example_world_def)
  have n: "node_tree_content_type_names example_host = [''word'', ''call'', ''content'']"
    by (simp add: example_host_def)
  from node_types_table [OF d l a m, of 0 example_params example_world]
  obtain t where t1: "globals (lua_mem (set_globals example_host 0 example_params example_world)
                       (state (env_mem example_world 0))) EM_NODE_TYPES_TABLE = LTable t"
    and t2: "map fst t = node_tree_content_type_names example_host"
    and t3: "\<forall>i < length (node_tree_content_type_names example_host).
               map_of t (node_tree_content_type_names example_host ! i) = Some (LInteger (int i))"
    by blast
  from t2 obtain v0 v1 v2 where tt: "t = [(''word'', v0), (''call'', v1), (''content'', v2)]"
    unfolding n by (auto simp add: map_eq_Cons_conv)
  have "map_of t ([''word'', ''call'', ''content''] ! 0) = Some (LInteger (int 0))"
    by (rule t3 [unfolded n, rule_format]) simp
  then have v0: "v0 = LInteger 0" by (simp add: tt)
  have "map_of t ([''word'', ''call'', ''content''] ! 1) = Some (LInteger (int 1))"
    by (rule t3 [unfolded n, rule_format]) simp
  then have v1: "v1 = LInteger 1" by (simp add: tt)
  have "map_of t ([''word'', ''call'', ''content''] ! 2) = Some (LInteger (int 2))"
    by (rule t3 [unfolded n, rule_format]) simp
  then have v2: "v2 = LInteger 2" by (simp add: tt)
  from t1 show ?thesis
    unfolding s tt v0 v1 v2 by (simp add: EM_NODE_TYPES_TABLE_def)
qed

subsection \<open>The library loader\<close>

lemma load_library_set_frame:
  "env_mem (load_library_set s lib w) = env_mem w \<and>
   ptr_mem (load_library_set s lib w) = ptr_mem w \<and>
   live (load_library_set s lib w) = live w \<and>
   brk (load_library_set s lib w) = brk w \<and>
   trace (load_library_set s lib w) = trace w"
  by (induction s lib w rule: load_library_set.induct) simp_all

lemma load_library_tiers_frame:
  "env_mem (load_library_tiers s params w) = env_mem w \<and>
   ptr_mem (load_library_tiers s params w) = ptr_mem w \<and>
   live (load_library_tiers s params w) = live w \<and>
   brk (load_library_tiers s params w) = brk w \<and>
   trace (load_library_tiers s params w) = trace w"
  by (simp add: load_library_tiers_def LOAD_LIBRARY_SET_def Let_def load_library_set_frame)

lemma load_em_std_functions_frame:
  "env_mem (load_em_std_functions h s w) = env_mem w \<and>
   ptr_mem (load_em_std_functions h s w) = ptr_mem w \<and>
   live (load_em_std_functions h s w) = live w \<and>
   brk (load_em_std_functions h s w) = brk w \<and>
   trace (load_em_std_functions h s w) = trace w"
  by (simp add: load_em_std_functions_def Let_def)

lemma load_em_std_functions_lua:
  "lua_mem (load_em_std_functions h s w) s =
     (lua_mem w s)\<lparr>globals := (globals (lua_mem w s))
        (EM_EVAL_NODE_FUNC_NAME := LCFunction ext_eval_tree,
         EM_IMPORT_STYLESHEET_FUNC_NAME h := LCFunction ext_import_stylesheet,
         EM_REQUIRE_RUNS_FUNC_NAME := LCFunction ext_require_rerun_ptr,
         EM_INCLUDE_FILE_FUNC_NAME h := LCFunction ext_include_file)\<rparr>"
  by (simp add: load_em_std_functions_def Let_def lua_register_def lua_setglobal_def
      lua_pushcfunction_def)

lemma load_libraries_env: "env_mem (snd (load_libraries h s params w)) = env_mem w"
  by (simp add: load_libraries_def Let_def call_load_em_std_lib_def load_library_tiers_frame
      load_em_std_functions_frame split: prod.split)

lemma load_libraries_ptr: "ptr_mem (snd (load_libraries h s params w)) = ptr_mem w"
  by (simp add: load_libraries_def Let_def call_load_em_std_lib_def load_library_tiers_frame
      load_em_std_functions_frame split_beta)

lemma load_libraries_trace:
  "trace (snd (load_libraries h s params w)) = trace w @ [Load_em_std_lib (fst (load_libraries h s params w))]"
  by (simp add: load_libraries_def Let_def call_load_em_std_lib_def load_library_tiers_frame
      load_em_std_functions_frame split: prod.split)

lemma load_libraries_lua:
  "lua_mem (snd (load_libraries h s params w)) s =
     snd (load_em_std_lib h (lua_mem (load_em_std_functions h s (load_library_tiers s params w)) s))"
  by (simp add: load_libraries_def Let_def call_load_em_std_lib_def split_beta)

lemma fst_load_libraries:
  "fst (load_libraries h s params w) =
     fst (load_em_std_lib h (lua_mem (load_em_std_functions h s (load_library_tiers s params w)) s))"
  by (simp add: load_libraries_def Let_def call_load_em_std_lib_def split_beta)

lemma call_load_extensions_env: "env_mem (snd (call_load_extensions h s params w)) = env_mem w"
  by (simp add: call_load_extensions_def split: prod.split)

lemma call_load_extensions_ptr: "ptr_mem (snd (call_load_extensions h s params w)) = ptr_mem w"
  by (simp add: call_load_extensions_def split_beta)

lemma call_load_extensions_trace:
  "trace (snd (call_load_extensions h s params w)) =
     trace w @ [Load_extensions (fst (call_load_extensions h s params w))]"
  by (simp add: call_load_extensions_def split: prod.split)

lemma call_load_extensions_lua:
  "lua_mem (snd (call_load_extensions h s params w)) s = snd (load_extensions h (lua_mem w s) params)"
  by (simp add: call_load_extensions_def split_beta)

lemma fst_call_load_extensions:
  "fst (call_load_extensions h s params w) = fst (load_extensions h (lua_mem w s) params)"
  by (simp add: call_load_extensions_def split_beta)

text \<open>
  One round of the loop of \<open>load_library_set\<close>, and what the whole loop leaves at a
  name in \<open>package.loaded\<close> and, the openers' own writes being left out of the model,
  in the global of that name.
\<close>

lemma requiref_pop:
  "lua_pop (luaL_requiref L name func 1) (Suc 0) =
     L\<lparr>loaded := (if lua_toboolean (loaded L name) then loaded L
                   else (loaded L)(name := LModule func)),
        globals := (globals L)(name := (if lua_toboolean (loaded L name) then loaded L name
                                         else LModule func))\<rparr>"
  by (simp add: luaL_requiref_def lua_pop_def Let_def)

lemma load_library_set_other:
  "a \<noteq> s \<Longrightarrow> lua_mem (load_library_set s lib w) a = lua_mem w a"
  by (induction s lib w rule: load_library_set.induct) simp_all

lemma load_library_set_stack:
  "stack (lua_mem (load_library_set s lib w) s) = stack (lua_mem w s)"
  by (induction s lib w rule: load_library_set.induct) (simp_all add: requiref_pop)

lemma load_library_set_loaded:
  "loaded (lua_mem (load_library_set s lib w) s) n =
     (if lua_toboolean (loaded (lua_mem w s) n) then loaded (lua_mem w s) n
      else (case reg_lookup lib n of None \<Rightarrow> loaded (lua_mem w s) n | Some f \<Rightarrow> LModule f))"
  by (induction s lib w rule: load_library_set.induct)
     (simp_all add: requiref_pop lua_toboolean_def split: option.split)

lemma load_library_set_globals:
  "globals (lua_mem (load_library_set s lib w) s) n =
     (case reg_lookup lib n of
        None \<Rightarrow> globals (lua_mem w s) n
      | Some f \<Rightarrow> if lua_toboolean (loaded (lua_mem w s) n) then loaded (lua_mem w s) n
                  else LModule f)"
  by (induction s lib w rule: load_library_set.induct)
     (auto simp add: requiref_pop lua_toboolean_def load_library_set_loaded split: option.split)

lemma loaded_libraries_load_library_set:
  "loaded_libraries (lua_mem (load_library_set s lib w) s) =
     loaded_libraries (lua_mem w s) \<union> reg_names lib"
  by (auto simp add: loaded_libraries_def reg_names_def load_library_set_loaded lua_toboolean_def
      split: option.splits if_splits)

lemma load_library_tiers_stack:
  "stack (lua_mem (load_library_tiers s params w) s) = stack (lua_mem w s)"
  by (simp add: load_library_tiers_def LOAD_LIBRARY_SET_def Let_def load_library_set_stack)

lemma libraries_at_level_eq:
  "libraries_at_level s params w lvl =
     loaded_libraries (lua_mem w s) \<union>
     (if lvl \<le> 2 then reg_names lua_std_libs_universal else {}) \<union>
     (if lvl \<le> 1 then reg_names lua_std_libs_restriction_lvl_1 else {}) \<union>
     (if lvl \<le> 0 then reg_names lua_std_libs_restriction_lvl_0 else {})"
  by (simp add: libraries_at_level_def load_library_tiers_def LOAD_LIBRARY_SET_def Let_def
      loaded_libraries_load_library_set Un_assoc)

lemma loaded_libraries_load_library_tiers:
  "loaded_libraries (lua_mem (load_library_tiers s params w) s) =
     loaded_libraries (lua_mem w s) \<union>
     (if sandbox_lvl params \<le> 2 then reg_names lua_std_libs_universal else {}) \<union>
     (if sandbox_lvl params \<le> 1 then reg_names lua_std_libs_restriction_lvl_1 else {}) \<union>
     (if sandbox_lvl params \<le> 0 then reg_names lua_std_libs_restriction_lvl_0 else {})"
  by (simp add: load_library_tiers_def LOAD_LIBRARY_SET_def Let_def
      loaded_libraries_load_library_set Un_assoc)

text \<open>The three arrays, entry by entry; no name is in two of them.\<close>

lemmas lib_tables =
  lua_std_libs_universal_def lua_std_libs_restriction_lvl_1_def lua_std_libs_restriction_lvl_0_def
  LUA_LOADLIBNAME_def LUA_COLIBNAME_def LUA_UTF8LIBNAME_def LUA_TABLIBNAME_def LUA_STRLIBNAME_def
  LUA_MATHLIBNAME_def LUA_DBLIBNAME_def LUA_IOLIBNAME_def LUA_OSLIBNAME_def

lemma reg_names_simps:
  "reg_names lua_std_libs_universal =
     {[], ''package'', ''coroutine'', ''utf8'', ''table'', ''string'', ''math'', ''debug''}"
  "reg_names lua_std_libs_restriction_lvl_1 = {''io''}"
  "reg_names lua_std_libs_restriction_lvl_0 = {''os''}"
  by (auto simp add: reg_names_def lua_std_libs_universal_def lua_std_libs_restriction_lvl_1_def
      lua_std_libs_restriction_lvl_0_def LUA_LOADLIBNAME_def LUA_COLIBNAME_def LUA_UTF8LIBNAME_def
      LUA_TABLIBNAME_def LUA_STRLIBNAME_def LUA_MATHLIBNAME_def LUA_DBLIBNAME_def LUA_IOLIBNAME_def
      LUA_OSLIBNAME_def split: if_splits)

lemma reg_lookup_universal:
  "reg_lookup lua_std_libs_universal n =
     (if n = [] then Some luaopen_base
      else if n = ''package'' then Some luaopen_package
      else if n = ''coroutine'' then Some luaopen_coroutine
      else if n = ''utf8'' then Some luaopen_utf8
      else if n = ''table'' then Some luaopen_table
      else if n = ''string'' then Some luaopen_string
      else if n = ''math'' then Some luaopen_math
      else if n = ''debug'' then Some luaopen_debug
      else None)"
  by (simp add: lib_tables)

lemma reg_lookup_restriction_lvl_1:
  "reg_lookup lua_std_libs_restriction_lvl_1 n = (if n = ''io'' then Some luaopen_io else None)"
  by (simp add: lib_tables)

lemma reg_lookup_restriction_lvl_0:
  "reg_lookup lua_std_libs_restriction_lvl_0 n = (if n = ''os'' then Some luaopen_os else None)"
  by (simp add: lib_tables)

lemma tiers_disjoint:
  "reg_lookup lua_std_libs_universal n = Some f \<Longrightarrow>
     reg_lookup lua_std_libs_restriction_lvl_1 n = None \<and> reg_lookup lua_std_libs_restriction_lvl_0 n = None"
  "reg_lookup lua_std_libs_restriction_lvl_1 n = Some f \<Longrightarrow>
     reg_lookup lua_std_libs_universal n = None \<and> reg_lookup lua_std_libs_restriction_lvl_0 n = None"
  "reg_lookup lua_std_libs_restriction_lvl_0 n = Some f \<Longrightarrow>
     reg_lookup lua_std_libs_universal n = None \<and> reg_lookup lua_std_libs_restriction_lvl_1 n = None"
  by (simp_all add: reg_lookup_universal reg_lookup_restriction_lvl_1 reg_lookup_restriction_lvl_0
      split: if_splits)

lemma load_library_tiers_globals_other:
  assumes "n \<notin> reg_names lua_std_libs_universal \<union> reg_names lua_std_libs_restriction_lvl_1 \<union>
               reg_names lua_std_libs_restriction_lvl_0"
  shows "globals (lua_mem (load_library_tiers s params w) s) n = globals (lua_mem w s) n"
  using assms
  by (simp add: load_library_tiers_def LOAD_LIBRARY_SET_def Let_def load_library_set_globals
      reg_names_def)

text \<open>
  C3, as the spec states it: for sandbox levels \<open>L0 < L1\<close> the libraries loaded at \<open>L0\<close>
  are among those loaded at \<open>L1\<close>. It fails: a fresh runtime has \<open>os\<close> at level 0 and
  not at level 1.
\<close>

theorem capabilities_grow_with_level_counterexample:
  "(0::int) < 1 \<and>
   \<not> libraries_at_level 0 example_params example_world 0
       \<subseteq> libraries_at_level 0 example_params example_world 1"
  by (simp add: libraries_at_level_eq reg_names_simps loaded_libraries_def example_world_def
      lua_newstate_def lua_toboolean_def)

text \<open>
  C3, amended: the source loads a tier when the sandbox level is at most the tier's
  maximum, so for \<open>L0 < L1\<close> the libraries loaded at \<open>L1\<close> are among those loaded at
  \<open>L0\<close>: a higher level is the more restrictive one.
\<close>

theorem capabilities_shrink_with_level:
  assumes "L0 < L1"
  shows "libraries_at_level s params w L1 \<subseteq> libraries_at_level s params w L0"
  using assms by (auto simp add: libraries_at_level_eq split: if_splits)

theorem capabilities_shrink_with_level_witness:
  "(0::int) < 2 \<and>
   libraries_at_level 0 example_params example_world 2
     \<subseteq> libraries_at_level 0 example_params example_world 0 \<and>
   ''os'' \<in> libraries_at_level 0 example_params example_world 0 \<and>
   ''os'' \<notin> libraries_at_level 0 example_params example_world 2"
proof -
  have h: "(0::int) < 2" by simp
  show ?thesis
    using capabilities_shrink_with_level [OF h, of 0 example_params example_world]
    by (simp add: libraries_at_level_eq reg_names_simps loaded_libraries_def example_world_def
      lua_newstate_def lua_toboolean_def)
qed

lemma row_universal:
  "row_loaded_iff 2 lua_std_libs_universal (sandbox_lvl params) (lua_mem w s)
     (lua_mem (load_library_tiers s params w) s)"
  unfolding row_loaded_iff_def
proof (intro allI impI)
  fix n f
  assume r: "reg_lookup lua_std_libs_universal n = Some f"
  note d = tiers_disjoint(1) [OF r]
  show "if sandbox_lvl params \<le> 2
        then lua_toboolean (loaded (lua_mem (load_library_tiers s params w) s) n) \<and>
             globals (lua_mem (load_library_tiers s params w) s) n =
               loaded (lua_mem (load_library_tiers s params w) s) n \<and>
             (\<not> lua_toboolean (loaded (lua_mem w s) n) \<longrightarrow>
                loaded (lua_mem (load_library_tiers s params w) s) n = LModule f)
        else loaded (lua_mem (load_library_tiers s params w) s) n = loaded (lua_mem w s) n \<and>
             globals (lua_mem (load_library_tiers s params w) s) n = globals (lua_mem w s) n"
    by (simp add: load_library_tiers_def LOAD_LIBRARY_SET_def Let_def load_library_set_loaded
        load_library_set_globals r d lua_toboolean_def)
qed

lemma row_restriction_lvl_1:
  "row_loaded_iff 1 lua_std_libs_restriction_lvl_1 (sandbox_lvl params) (lua_mem w s)
     (lua_mem (load_library_tiers s params w) s)"
  unfolding row_loaded_iff_def
proof (intro allI impI)
  fix n f
  assume r: "reg_lookup lua_std_libs_restriction_lvl_1 n = Some f"
  note d = tiers_disjoint(2) [OF r]
  show "if sandbox_lvl params \<le> 1
        then lua_toboolean (loaded (lua_mem (load_library_tiers s params w) s) n) \<and>
             globals (lua_mem (load_library_tiers s params w) s) n =
               loaded (lua_mem (load_library_tiers s params w) s) n \<and>
             (\<not> lua_toboolean (loaded (lua_mem w s) n) \<longrightarrow>
                loaded (lua_mem (load_library_tiers s params w) s) n = LModule f)
        else loaded (lua_mem (load_library_tiers s params w) s) n = loaded (lua_mem w s) n \<and>
             globals (lua_mem (load_library_tiers s params w) s) n = globals (lua_mem w s) n"
    by (simp add: load_library_tiers_def LOAD_LIBRARY_SET_def Let_def load_library_set_loaded
        load_library_set_globals r d lua_toboolean_def)
qed

lemma row_restriction_lvl_0:
  "row_loaded_iff 0 lua_std_libs_restriction_lvl_0 (sandbox_lvl params) (lua_mem w s)
     (lua_mem (load_library_tiers s params w) s)"
  unfolding row_loaded_iff_def
proof (intro allI impI)
  fix n f
  assume r: "reg_lookup lua_std_libs_restriction_lvl_0 n = Some f"
  note d = tiers_disjoint(3) [OF r]
  show "if sandbox_lvl params \<le> 0
        then lua_toboolean (loaded (lua_mem (load_library_tiers s params w) s) n) \<and>
             globals (lua_mem (load_library_tiers s params w) s) n =
               loaded (lua_mem (load_library_tiers s params w) s) n \<and>
             (\<not> lua_toboolean (loaded (lua_mem w s) n) \<longrightarrow>
                loaded (lua_mem (load_library_tiers s params w) s) n = LModule f)
        else loaded (lua_mem (load_library_tiers s params w) s) n = loaded (lua_mem w s) n \<and>
             globals (lua_mem (load_library_tiers s params w) s) n = globals (lua_mem w s) n"
    by (simp add: load_library_tiers_def LOAD_LIBRARY_SET_def Let_def load_library_set_loaded
        load_library_set_globals r d lua_toboolean_def)
qed

lemma row_global:
  assumes "row_loaded_iff k lib lvl L L'" and "reg_lookup lib n = Some f"
  shows "if lvl \<le> k then globals L' n \<noteq> LNil else globals L' n = globals L n"
  using assms unfolding row_loaded_iff_def by (auto simp add: lua_toboolean_def)

text \<open>
  C4: at every sandbox level each tier is loaded if and only if the level is at most the
  maximum of its row (2 for the universal libraries, 1 for input and output, 0 for the
  operating system); every entry of a loaded row is registered in \<open>package.loaded\<close> and
  in the global scope, the names of a row that is not loaded are left alone, and the
  module each \<open>luaL_requiref\<close> leaves on the stack is popped, so the stack is as before.
\<close>

theorem tiers_loaded_iff_level:
  "row_loaded_iff 2 lua_std_libs_universal (sandbox_lvl params) (lua_mem w s)
     (lua_mem (load_library_tiers s params w) s) \<and>
   row_loaded_iff 1 lua_std_libs_restriction_lvl_1 (sandbox_lvl params) (lua_mem w s)
     (lua_mem (load_library_tiers s params w) s) \<and>
   row_loaded_iff 0 lua_std_libs_restriction_lvl_0 (sandbox_lvl params) (lua_mem w s)
     (lua_mem (load_library_tiers s params w) s) \<and>
   stack (lua_mem (load_library_tiers s params w) s) = stack (lua_mem w s)"
  by (simp add: row_universal row_restriction_lvl_1 row_restriction_lvl_0 load_library_tiers_stack)

theorem tiers_loaded_iff_level_witness:
  "reg_lookup lua_std_libs_restriction_lvl_1 ''io'' = Some luaopen_io \<and>
   loaded (lua_mem (load_library_tiers 0 (example_params\<lparr>sandbox_lvl := 1\<rparr>) example_world) 0) ''io'' =
     LModule luaopen_io \<and>
   globals (lua_mem (load_library_tiers 0 (example_params\<lparr>sandbox_lvl := 1\<rparr>) example_world) 0) ''io'' =
     LModule luaopen_io \<and>
   reg_lookup lua_std_libs_restriction_lvl_0 ''os'' = Some luaopen_os \<and>
   loaded (lua_mem (load_library_tiers 0 (example_params\<lparr>sandbox_lvl := 1\<rparr>) example_world) 0) ''os'' = LNil \<and>
   globals (lua_mem (load_library_tiers 0 (example_params\<lparr>sandbox_lvl := 1\<rparr>) example_world) 0) ''os'' = LNil \<and>
   stack (lua_mem (load_library_tiers 0 (example_params\<lparr>sandbox_lvl := 1\<rparr>) example_world) 0) = []"
proof -
  let ?L = "lua_mem example_world 0"
  let ?L' = "lua_mem (load_library_tiers 0 (example_params\<lparr>sandbox_lvl := 1\<rparr>) example_world) 0"
  have l: "sandbox_lvl (example_params\<lparr>sandbox_lvl := 1\<rparr>) = 1" by simp
  from tiers_loaded_iff_level [of "example_params\<lparr>sandbox_lvl := 1\<rparr>" example_world 0]
  have r1: "row_loaded_iff 1 lua_std_libs_restriction_lvl_1 1 ?L ?L'"
    and r0: "row_loaded_iff 0 lua_std_libs_restriction_lvl_0 1 ?L ?L'"
    and st: "stack ?L' = stack ?L"
    unfolding l by simp_all
  have io: "reg_lookup lua_std_libs_restriction_lvl_1 ''io'' = Some luaopen_io"
    by (simp add: reg_lookup_restriction_lvl_1)
  have os: "reg_lookup lua_std_libs_restriction_lvl_0 ''os'' = Some luaopen_os"
    by (simp add: reg_lookup_restriction_lvl_0)
  have L: "loaded ?L = (\<lambda>_. LNil)" "globals ?L = (\<lambda>_. LNil)" "stack ?L = []"
    by (simp_all add: example_world_def lua_newstate_def)
  from r1 [unfolded row_loaded_iff_def, rule_format, OF io]
  have a: "loaded ?L' ''io'' = LModule luaopen_io" "globals ?L' ''io'' = LModule luaopen_io"
    by (simp_all add: L lua_toboolean_def)
  from r0 [unfolded row_loaded_iff_def, rule_format, OF os]
  have b: "loaded ?L' ''os'' = LNil" "globals ?L' ''os'' = LNil"
    by (simp_all add: L)
  show ?thesis
    using io os a b st by (simp add: L)
qed

text \<open>
  C5, as the spec states it: input and output facilities are granted at every level
  \<open>\<ge> 1\<close> and operating-system facilities at every level \<open>\<ge> 0\<close>. It fails: on a fresh
  runtime \<open>io\<close> is neither loaded nor bound to its global at level 2, and neither is
  \<open>os\<close> at level 1.
\<close>

theorem facilities_by_level_counterexample:
  "(2::int) \<ge> 1 \<and>
   LUA_IOLIBNAME \<notin> loaded_libraries
     (lua_mem (load_library_tiers 0 (example_params\<lparr>sandbox_lvl := 2\<rparr>) example_world) 0) \<and>
   globals (lua_mem (load_library_tiers 0 (example_params\<lparr>sandbox_lvl := 2\<rparr>) example_world) 0)
     LUA_IOLIBNAME = LNil \<and>
   (1::int) \<ge> 0 \<and>
   LUA_OSLIBNAME \<notin> loaded_libraries
     (lua_mem (load_library_tiers 0 (example_params\<lparr>sandbox_lvl := 1\<rparr>) example_world) 0) \<and>
   globals (lua_mem (load_library_tiers 0 (example_params\<lparr>sandbox_lvl := 1\<rparr>) example_world) 0)
     LUA_OSLIBNAME = LNil"
proof -
  have c: "loaded_libraries (lua_mem example_world 0) = {}"
    by (simp add: loaded_libraries_def example_world_def lua_newstate_def lua_toboolean_def)
  have g: "globals (lua_mem example_world 0) = (\<lambda>_. LNil)"
    by (simp add: example_world_def lua_newstate_def)
  have io: "reg_lookup lua_std_libs_restriction_lvl_1 LUA_IOLIBNAME = Some luaopen_io"
    by (simp add: reg_lookup_restriction_lvl_1 LUA_IOLIBNAME_def)
  have os: "reg_lookup lua_std_libs_restriction_lvl_0 LUA_OSLIBNAME = Some luaopen_os"
    by (simp add: reg_lookup_restriction_lvl_0 LUA_OSLIBNAME_def)
  have a: "LUA_IOLIBNAME \<notin> loaded_libraries
     (lua_mem (load_library_tiers 0 (example_params\<lparr>sandbox_lvl := 2\<rparr>) example_world) 0)"
    "LUA_OSLIBNAME \<notin> loaded_libraries
     (lua_mem (load_library_tiers 0 (example_params\<lparr>sandbox_lvl := 1\<rparr>) example_world) 0)"
    unfolding loaded_libraries_load_library_tiers c
    by (simp_all add: reg_names_simps LUA_IOLIBNAME_def LUA_OSLIBNAME_def)
  have b: "globals (lua_mem (load_library_tiers 0 (example_params\<lparr>sandbox_lvl := 2\<rparr>) example_world) 0)
     LUA_IOLIBNAME = LNil"
    using row_global [OF row_restriction_lvl_1 [of "example_params\<lparr>sandbox_lvl := 2\<rparr>" example_world 0] io]
    by (simp add: g)
  have d: "globals (lua_mem (load_library_tiers 0 (example_params\<lparr>sandbox_lvl := 1\<rparr>) example_world) 0)
     LUA_OSLIBNAME = LNil"
    using row_global [OF row_restriction_lvl_0 [of "example_params\<lparr>sandbox_lvl := 1\<rparr>" example_world 0] os]
    by (simp add: g)
  from a b d show ?thesis by simp
qed

text \<open>
  C5, amended: of the standard libraries, the tiers load into \<open>package.loaded\<close> the
  universal ones at every level \<open>\<le> 2\<close> and no other at level 2, the input and output
  library at every level \<open>\<le> 1\<close> and the operating-system library at every level \<open>\<le> 0\<close>,
  and none above level 2. A library that is loaded is bound to the global of its name,
  and the global of a library that is not loaded is left as it was. In particular the
  \<open>os\<close> library is loaded and in the global scope at level 0, and at level 2 it is absent
  from a runtime that did not have it before.
\<close>

theorem facilities_by_level:
  "loaded_libraries (lua_mem (load_library_tiers s params w) s) =
     loaded_libraries (lua_mem w s) \<union>
     (if sandbox_lvl params \<le> 2 then reg_names lua_std_libs_universal else {}) \<union>
     (if sandbox_lvl params \<le> 1 then {LUA_IOLIBNAME} else {}) \<union>
     (if sandbox_lvl params \<le> 0 then {LUA_OSLIBNAME} else {}) \<and>
   (\<forall>n \<in> reg_names lua_std_libs_universal.
      if sandbox_lvl params \<le> 2
      then globals (lua_mem (load_library_tiers s params w) s) n \<noteq> LNil
      else globals (lua_mem (load_library_tiers s params w) s) n = globals (lua_mem w s) n) \<and>
   (if sandbox_lvl params \<le> 1
    then globals (lua_mem (load_library_tiers s params w) s) LUA_IOLIBNAME \<noteq> LNil
    else globals (lua_mem (load_library_tiers s params w) s) LUA_IOLIBNAME =
           globals (lua_mem w s) LUA_IOLIBNAME) \<and>
   (if sandbox_lvl params \<le> 0
    then globals (lua_mem (load_library_tiers s params w) s) LUA_OSLIBNAME \<noteq> LNil
    else globals (lua_mem (load_library_tiers s params w) s) LUA_OSLIBNAME =
           globals (lua_mem w s) LUA_OSLIBNAME) \<and>
   (sandbox_lvl params = 0 \<longrightarrow>
      LUA_OSLIBNAME \<in> loaded_libraries (lua_mem (load_library_tiers s params w) s) \<and>
      globals (lua_mem (load_library_tiers s params w) s) LUA_OSLIBNAME \<noteq> LNil) \<and>
   (sandbox_lvl params = 2 \<and> LUA_OSLIBNAME \<notin> loaded_libraries (lua_mem w s) \<and>
    globals (lua_mem w s) LUA_OSLIBNAME = LNil \<longrightarrow>
      LUA_OSLIBNAME \<notin> loaded_libraries (lua_mem (load_library_tiers s params w) s) \<and>
      globals (lua_mem (load_library_tiers s params w) s) LUA_OSLIBNAME = LNil)"
proof -
  let ?L = "lua_mem w s" and ?L' = "lua_mem (load_library_tiers s params w) s"
  have l: "loaded_libraries ?L' =
     loaded_libraries ?L \<union>
     (if sandbox_lvl params \<le> 2 then reg_names lua_std_libs_universal else {}) \<union>
     (if sandbox_lvl params \<le> 1 then {LUA_IOLIBNAME} else {}) \<union>
     (if sandbox_lvl params \<le> 0 then {LUA_OSLIBNAME} else {})"
    by (simp add: loaded_libraries_load_library_tiers reg_names_simps LUA_IOLIBNAME_def
        LUA_OSLIBNAME_def)
  have u: "if sandbox_lvl params \<le> 2 then globals ?L' n \<noteq> LNil else globals ?L' n = globals ?L n"
    if "n \<in> reg_names lua_std_libs_universal" for n
  proof -
    from that obtain f where "reg_lookup lua_std_libs_universal n = Some f"
      by (auto simp add: reg_names_def)
    then show ?thesis by (rule row_global [OF row_universal])
  qed
  have io: "reg_lookup lua_std_libs_restriction_lvl_1 LUA_IOLIBNAME = Some luaopen_io"
    by (simp add: reg_lookup_restriction_lvl_1 LUA_IOLIBNAME_def)
  have os: "reg_lookup lua_std_libs_restriction_lvl_0 LUA_OSLIBNAME = Some luaopen_os"
    by (simp add: reg_lookup_restriction_lvl_0 LUA_OSLIBNAME_def)
  note i = row_global [OF row_restriction_lvl_1 [of params w s] io]
  note z = row_global [OF row_restriction_lvl_0 [of params w s] os]
  have n: "LUA_OSLIBNAME \<notin> reg_names lua_std_libs_universal"
    by (simp add: reg_names_simps LUA_OSLIBNAME_def)
  have p0: "sandbox_lvl params = 0 \<longrightarrow>
      LUA_OSLIBNAME \<in> loaded_libraries ?L' \<and> globals ?L' LUA_OSLIBNAME \<noteq> LNil"
    using z by (simp add: l)
  have p2: "sandbox_lvl params = 2 \<and> LUA_OSLIBNAME \<notin> loaded_libraries ?L \<and>
    globals ?L LUA_OSLIBNAME = LNil \<longrightarrow>
      LUA_OSLIBNAME \<notin> loaded_libraries ?L' \<and> globals ?L' LUA_OSLIBNAME = LNil"
    using z n by (simp add: l)
  from l u i z p0 p2 show ?thesis by blast
qed

theorem facilities_by_level_witness:
  "sandbox_lvl (example_params\<lparr>sandbox_lvl := 0\<rparr>) = 0 \<and>
   ''os'' \<in> loaded_libraries
     (lua_mem (load_library_tiers 0 (example_params\<lparr>sandbox_lvl := 0\<rparr>) example_world) 0) \<and>
   globals (lua_mem (load_library_tiers 0 (example_params\<lparr>sandbox_lvl := 0\<rparr>) example_world) 0) ''os''
     \<noteq> LNil \<and>
   sandbox_lvl example_params = 2 \<and>
   ''os'' \<notin> loaded_libraries (lua_mem example_world 0) \<and>
   globals (lua_mem example_world 0) ''os'' = LNil \<and>
   ''os'' \<notin> loaded_libraries (lua_mem (load_library_tiers 0 example_params example_world) 0) \<and>
   globals (lua_mem (load_library_tiers 0 example_params example_world) 0) ''os'' = LNil \<and>
   loaded_libraries (lua_mem (load_library_tiers 0 example_params example_world) 0) =
     {[], ''package'', ''coroutine'', ''utf8'', ''table'', ''string'', ''math'', ''debug''}"
proof -
  have a: "sandbox_lvl (example_params\<lparr>sandbox_lvl := 0\<rparr>) = 0" by simp
  have b: "sandbox_lvl example_params = 2" by (simp add: example_params_def)
  have c: "loaded_libraries (lua_mem example_world 0) = {}"
    by (simp add: loaded_libraries_def example_world_def lua_newstate_def lua_toboolean_def)
  have g: "globals (lua_mem example_world 0) ''os'' = LNil"
    by (simp add: example_world_def lua_newstate_def)
  have o: "LUA_OSLIBNAME = ''os''" by (simp add: LUA_OSLIBNAME_def)
  from facilities_by_level [of 0 "example_params\<lparr>sandbox_lvl := 0\<rparr>" example_world]
  have l0: "''os'' \<in> loaded_libraries
       (lua_mem (load_library_tiers 0 (example_params\<lparr>sandbox_lvl := 0\<rparr>) example_world) 0) \<and>
     globals (lua_mem (load_library_tiers 0 (example_params\<lparr>sandbox_lvl := 0\<rparr>) example_world) 0) ''os''
       \<noteq> LNil"
    unfolding a o by blast
  from facilities_by_level [of 0 example_params example_world]
  have l2: "''os'' \<notin> loaded_libraries (lua_mem (load_library_tiers 0 example_params example_world) 0) \<and>
     globals (lua_mem (load_library_tiers 0 example_params example_world) 0) ''os'' = LNil"
    and s2': "loaded_libraries (lua_mem (load_library_tiers 0 example_params example_world) 0) =
       {[], ''package'', ''coroutine'', ''utf8'', ''table'', ''string'', ''math'', ''debug''}"
    unfolding b o c LUA_IOLIBNAME_def using g by (simp_all add: reg_names_simps)
  from a b c g l0 l2 s2' show ?thesis by simp
qed

subsection \<open>Creating an environment\<close>

lemma make_ext_env_init_env:
  "env_mem (make_ext_env_init h ext params w) =
     (env_mem w)(ext := (env_mem w ext)\<lparr>state := brk w, require_extra_run := True, iter_num := 0,
        styler := Suc (brk w), selfp := Suc (Suc (brk w)), args := Suc (Suc (Suc (brk w))),
        mt_names_list := Suc (Suc (Suc (Suc (brk w))))\<rparr>)"
  by (simp add: make_ext_env_init_def Let_def split_beta set_globals_env fun_eq_iff)

lemma make_ext_env_init_trace:
  "trace (make_ext_env_init h ext params w) = trace w @ [Log_debug (brk w) ext, Provide_styler ext]"
  by (simp add: make_ext_env_init_def Let_def split_beta set_globals_trace)

lemma make_ext_env_init_state: "state (env_mem (make_ext_env_init h ext params w) ext) = brk w"
  by (simp add: make_ext_env_init_env)

lemma make_ext_env_init_ptr:
  "ptr_mem (make_ext_env_init h ext params w) =
     (ptr_mem w)(Suc (brk w) := \<lparr>lp_type = STYLER, lp_data = params_styler params\<rparr>,
                 Suc (Suc (brk w)) := \<lparr>lp_type = EXT_ENV, lp_data = ext\<rparr>,
                 Suc (Suc (Suc (brk w))) := \<lparr>lp_type = PARSED_ARGS, lp_data = params_args params\<rparr>,
                 Suc (Suc (Suc (Suc (brk w)))) :=
                   \<lparr>lp_type = MT_NAMES_LIST, lp_data = params_mt_names_list params\<rparr>)"
  by (simp add: make_ext_env_init_def Let_def split_beta set_globals_ptr)

lemma make_ext_env_init_lua:
  "lua_mem (make_ext_env_init h ext params w) (brk w) =
     (let L = provide_styler h
                ((env_mem w ext)\<lparr>state := brk w, require_extra_run := True, iter_num := 0,
                                  styler := Suc (brk w)\<rparr>) lua_newstate
      in L\<lparr>globals := (globals L)
            (EM_ITER_NUM_VAR_NAME h := LInteger 0,
             EM_ENV_VAR_NAME h := LLightUserdata (Suc (Suc (brk w))),
             EM_NODE_TYPES_TABLE :=
               LTable (fold (\<lambda>j. AList.update (node_tree_content_type_names h ! j)
                                   (LInteger (size_t_to_lua_Integer j)))
                         [0..<length (node_tree_content_type_names h)] []),
             EM_ARGS_VAR_NAME h := LLightUserdata (Suc (Suc (Suc (brk w)))),
             EM_MT_NAMES_LIST_VAR_NAME h := LLightUserdata (Suc (Suc (Suc (Suc (brk w))))))\<rparr>)"
proof -
  define w9 where "w9 = call_provide_styler h ext (log_debug (brk w) ext
      (make_lua_pointer (Suc (brk w)) STYLER (params_styler params)
        (on_env ext (\<lambda>x. x\<lparr>styler := Suc (brk w)\<rparr>)
          (snd (malloc (on_env ext (\<lambda>x. x\<lparr>iter_num := 0\<rparr>)
            (on_env ext (\<lambda>x. x\<lparr>require_extra_run := True\<rparr>)
              (on_env ext (\<lambda>x. x\<lparr>state := brk w\<rparr>) (snd (luaL_newstate w))))))))))"
  have i: "make_ext_env_init h ext params w = set_globals h ext params w9"
    by (simp add: make_ext_env_init_def Let_def split_beta w9_def)
  have s9: "state (env_mem w9 ext) = brk w" and b9: "brk w9 = Suc (Suc (brk w))"
    by (simp_all add: w9_def)
  have l9: "lua_mem w9 (brk w) =
      provide_styler h ((env_mem w ext)\<lparr>state := brk w, require_extra_run := True, iter_num := 0,
                                  styler := Suc (brk w)\<rparr>) lua_newstate"
    by (simp add: w9_def call_provide_styler_def)
  show ?thesis
    using set_globals_lua [of h ext params w9] unfolding i s9 b9 l9 Let_def by simp
qed

lemma make_ext_env_unfold:
  "make_ext_env h ext params w =
     (let w10 = make_ext_env_init h ext params w;
          r = load_libraries h (state (env_mem w10 ext)) params w10
      in if fst r \<noteq> 0 then r else call_load_extensions h (state (env_mem (snd r) ext)) params (snd r))"
  unfolding make_ext_env_def make_ext_env_init_def Let_def split_beta
  by (simp only: prod.collapse)

lemma make_ext_env_env:
  "env_mem (snd (make_ext_env h ext params w)) =
     (env_mem w)(ext := (env_mem w ext)\<lparr>state := brk w, require_extra_run := True, iter_num := 0,
        styler := Suc (brk w), selfp := Suc (Suc (brk w)), args := Suc (Suc (Suc (brk w))),
        mt_names_list := Suc (Suc (Suc (Suc (brk w))))\<rparr>)"
  by (simp add: make_ext_env_unfold Let_def load_libraries_env call_load_extensions_env
      make_ext_env_init_env)

lemma make_ext_env_ptr:
  "ptr_mem (snd (make_ext_env h ext params w)) = ptr_mem (make_ext_env_init h ext params w)"
  by (simp add: make_ext_env_unfold Let_def load_libraries_ptr call_load_extensions_ptr)

text \<open>
  C1: after \<open>make_ext_env\<close>, whatever it returns and for every sandbox level and every
  parameter set, the rerun flag of the environment is true and its iteration counter
  is 0.
\<close>

theorem make_ext_env_flags:
  "require_extra_run (env_mem (snd (make_ext_env h ext params w)) ext) \<and>
   iter_num (env_mem (snd (make_ext_env h ext params w)) ext) = 0"
  by (simp add: make_ext_env_env)

text \<open>The example before and after creation.\<close>

theorem make_ext_env_flags_witness:
  "\<not> require_extra_run (env_mem example_world 0) \<and>
   iter_num (env_mem example_world 0) = 5 \<and>
   require_extra_run (env_mem created_world 0) \<and>
   iter_num (env_mem created_world 0) = 0"
  using make_ext_env_flags [of example_host 0 example_params example_world]
  by (simp add: created_world_def example_world_def)

text \<open>
  C8: \<open>make_ext_env\<close> returns the non-zero code of loading the host libraries without
  calling the extension loader, and otherwise returns what the extension loader
  returned. Here \<open>r\<close> is what \<open>load_libraries\<close> returns at the point of the call; the
  trace shows which collaborators were called, with the codes they returned.
\<close>

theorem make_ext_env_return_code:
  "(let r = fst (load_libraries h (brk w) params (make_ext_env_init h ext params w));
        res = make_ext_env h ext params w
    in trace (snd res) =
         trace w @ [Log_debug (brk w) ext, Provide_styler ext, Load_em_std_lib r] @
           (if r = 0 then [Load_extensions (fst res)] else []) \<and>
       (r \<noteq> 0 \<longrightarrow> fst res = r) \<and>
       (r = 0 \<longrightarrow>
          fst res =
            fst (load_extensions h
                   (lua_mem (snd (load_libraries h (brk w) params (make_ext_env_init h ext params w)))
                      (brk w))
                   params)))"
proof -
  define r where "r = load_libraries h (brk w) params (make_ext_env_init h ext params w)"
  have unf: "make_ext_env h ext params w =
      (if fst r \<noteq> 0 then r else call_load_extensions h (state (env_mem (snd r) ext)) params (snd r))"
    by (simp add: make_ext_env_unfold Let_def r_def make_ext_env_init_state)
  have tr: "trace (snd r) = trace w @ [Log_debug (brk w) ext, Provide_styler ext, Load_em_std_lib (fst r)]"
    by (simp add: r_def load_libraries_trace make_ext_env_init_trace)
  have st: "state (env_mem (snd r) ext) = brk w"
    by (simp add: r_def load_libraries_env make_ext_env_init_state)
  show ?thesis
  proof (cases "fst r = 0")
    case True
    then show ?thesis
      unfolding Let_def r_def [symmetric]
      by (simp add: unf tr call_load_extensions_trace fst_call_load_extensions st)
  next
    case False
    then show ?thesis
      unfolding Let_def r_def [symmetric] by (simp add: unf tr)
  qed
qed

theorem make_ext_env_return_code_witness:
  "fst (make_ext_env failing_host 0 example_params example_world) = 7 \<and>
   trace (snd (make_ext_env failing_host 0 example_params example_world)) =
     [Log_debug 10 0, Provide_styler 0, Load_em_std_lib 7] \<and>
   fst (make_ext_env example_host 0 example_params example_world) = 0 \<and>
   trace (snd (make_ext_env example_host 0 example_params example_world)) =
     [Log_debug 10 0, Provide_styler 0, Load_em_std_lib 0, Load_extensions 0]"
proof -
  have r: "fst (load_libraries failing_host 10 example_params
             (make_ext_env_init failing_host 0 example_params example_world)) = 7"
    by (simp add: fst_load_libraries failing_host_def)
  have r': "fst (load_libraries example_host 10 example_params
             (make_ext_env_init example_host 0 example_params example_world)) = 0"
    by (simp add: fst_load_libraries example_host_def)
  have l: "fst (load_extensions example_host L example_params) = 0" for L
    by (simp add: example_host_def)
  have b: "brk example_world = 10" "trace example_world = []"
    by (simp_all add: example_world_def)
  have bad: "fst (make_ext_env failing_host 0 example_params example_world) = 7 \<and>
      trace (snd (make_ext_env failing_host 0 example_params example_world)) =
        [Log_debug 10 0, Provide_styler 0, Load_em_std_lib 7]"
    using make_ext_env_return_code [where h = failing_host and w = example_world
        and params = example_params and ext = 0]
    unfolding Let_def b r by simp
  have good: "fst (make_ext_env example_host 0 example_params example_world) = 0 \<and>
      trace (snd (make_ext_env example_host 0 example_params example_world)) =
        [Log_debug 10 0, Provide_styler 0, Load_em_std_lib 0, Load_extensions 0]"
    using make_ext_env_return_code [where h = example_host and w = example_world
        and params = example_params and ext = 0]
    unfolding Let_def b r' l by simp
  from bad good show ?thesis by simp
qed

text \<open>The example after creation: the self-handle is in place and the stack is empty.\<close>

lemma created_world_lua:
  "stack (lua_mem created_world 10) = []"
  "globals (lua_mem created_world 10) ''em_env'' = LLightUserdata 12"
proof -
  define w10 where "w10 = make_ext_env_init example_host 0 example_params example_world"
  have b: "brk example_world = 10" by (simp add: example_world_def)
  have l10: "stack (lua_mem w10 10) = []" "globals (lua_mem w10 10) ''em_env'' = LLightUserdata 12"
    using make_ext_env_init_lua [of example_host 0 example_params example_world]
    unfolding b w10_def [symmetric]
    by (simp_all add: Let_def example_host_def lua_newstate_def EM_NODE_TYPES_TABLE_def)
  have c: "created_world = snd (call_load_extensions example_host 10 example_params
             (snd (load_libraries example_host 10 example_params w10)))"
    using make_ext_env_init_state [of example_host 0 example_params example_world]
    unfolding b
    by (simp add: created_world_def make_ext_env_unfold Let_def w10_def fst_load_libraries
        load_libraries_env)
       (simp add: example_host_def)
  have e: "load_extensions example_host = (\<lambda>L _. (0, L))" "load_em_std_lib example_host = (\<lambda>L. (0, L))"
    "EM_IMPORT_STYLESHEET_FUNC_NAME example_host = ''stylesheet''"
    "EM_INCLUDE_FILE_FUNC_NAME example_host = ''include''"
    by (simp_all add: example_host_def)
  have n: "''em_env'' \<notin> reg_names lua_std_libs_universal \<union> reg_names lua_std_libs_restriction_lvl_1 \<union>
               reg_names lua_std_libs_restriction_lvl_0"
    by (simp add: reg_names_simps)
  show "stack (lua_mem created_world 10) = []"
    unfolding c
    by (simp add: call_load_extensions_lua load_libraries_lua e load_em_std_functions_lua
        load_library_tiers_stack l10)
  show "globals (lua_mem created_world 10) ''em_env'' = LLightUserdata 12"
    unfolding c
    by (simp add: call_load_extensions_lua load_libraries_lua e load_em_std_functions_lua
        load_library_tiers_globals_other [OF n] l10 EM_EVAL_NODE_FUNC_NAME_def
        EM_REQUIRE_RUNS_FUNC_NAME_def)
qed

lemma created_world_ptr: "ptr_mem created_world 12 = \<lparr>lp_type = EXT_ENV, lp_data = 0\<rparr>"
  by (simp add: created_world_def make_ext_env_ptr make_ext_env_init_ptr example_world_def)

lemma created_world_env:
  "env_mem created_world 0 =
     \<lparr>state = 10, require_extra_run = True, iter_num = 0, styler = 11, selfp = 12, args = 13,
      mt_names_list = 14\<rparr>"
  by (simp add: created_world_def make_ext_env_env example_world_def)

lemma pass_started_facts:
  "stack (lua_mem pass_started 10) = []"
  "globals (lua_mem pass_started 10) ''em_env'' = LLightUserdata 12"
  "ptr_mem pass_started 12 = \<lparr>lp_type = EXT_ENV, lp_data = 0\<rparr>"
  "\<not> require_extra_run (env_mem pass_started 0)"
  by (simp_all add: pass_started_def created_world_lua created_world_ptr)

subsection \<open>The rerun request\<close>

lemma to_userdata_pointer_getglobal:
  "to_userdata_pointer s (- 1) t (on_lua s (\<lambda>L. lua_getglobal L n) w) =
     (case globals (lua_mem w s) n of
        LLightUserdata p \<Rightarrow> if lp_type (ptr_mem w p) = t then Some (lp_data (ptr_mem w p)) else None
      | _ \<Rightarrow> None)"
  by (simp add: to_userdata_pointer_def index2value_def lua_getglobal_def split: lua_value.split)

lemma ext_require_rerun_no_args:
  assumes "stack (lua_mem w s) = []"
  shows "ext_require_rerun h s w =
     (case to_userdata_pointer s (- 1) EXT_ENV (on_lua s (\<lambda>L. lua_getglobal L (EM_ENV_VAR_NAME h)) w) of
        None \<Rightarrow> (Raised ''Invalid internal value'', on_lua s (\<lambda>L. lua_pushstring L ''Invalid internal value'') w)
      | Some e \<Rightarrow> (Returned 0, on_env e (\<lambda>x. x\<lparr>require_extra_run := True\<rparr>) w))"
  using assms
  by (simp add: ext_require_rerun_def lua_gettop_def Let_def luaL_error_def split: option.split)

lemma ext_require_rerun_args:
  assumes "stack (lua_mem w s) \<noteq> []"
  shows "ext_require_rerun h s w =
     (let w1 = w\<lparr>trace := trace w @ [Log_warn warning (log_warn h warning)]\<rparr> in
      if log_warn h warning \<noteq> 0
      then (Raised ''Warnings are fatal'', on_lua s (\<lambda>L. lua_pushstring L ''Warnings are fatal'') w1)
      else (case to_userdata_pointer s (- 1) EXT_ENV (on_lua s (\<lambda>L. lua_getglobal L (EM_ENV_VAR_NAME h)) w) of
              None \<Rightarrow> (Raised ''Invalid internal value'', on_lua s (\<lambda>L. lua_pushstring L ''Invalid internal value'') w1)
            | Some e \<Rightarrow> (Returned 0, on_env e (\<lambda>x. x\<lparr>require_extra_run := True\<rparr>) w1)))"
  using assms
  by (simp add: ext_require_rerun_def lua_gettop_def Let_def luaL_error_def call_log_warn_def
      warning_def EM_REQUIRE_RUNS_FUNC_NAME_def on_lua_trace split: option.split)

text \<open>
  C2: called with no argument, \<open>ext_require_rerun\<close> reads the self-handle from the global
  scope and checks its tag \<open>EXT_ENV\<close>; when the check succeeds it sets the rerun flag of
  the environment the handle points to and returns no value to the guest; when it fails
  it raises \<open>Invalid internal value\<close> and no environment is written.
\<close>

theorem rerun_request_no_arguments:
  assumes "lua_gettop (lua_mem w s) = 0"
  shows "(\<forall>p. globals (lua_mem w s) (EM_ENV_VAR_NAME h) = LLightUserdata p \<and>
               lp_type (ptr_mem w p) = EXT_ENV \<longrightarrow>
            ext_require_rerun h s w =
              (Returned 0, on_env (lp_data (ptr_mem w p)) (\<lambda>x. x\<lparr>require_extra_run := True\<rparr>) w) \<and>
            require_extra_run (env_mem (snd (ext_require_rerun h s w)) (lp_data (ptr_mem w p)))) \<and>
         ((\<nexists>p. globals (lua_mem w s) (EM_ENV_VAR_NAME h) = LLightUserdata p \<and>
                lp_type (ptr_mem w p) = EXT_ENV) \<longrightarrow>
            fst (ext_require_rerun h s w) = Raised ''Invalid internal value'' \<and>
            env_mem (snd (ext_require_rerun h s w)) = env_mem w)"
proof -
  from assms have e: "stack (lua_mem w s) = []" by (simp add: lua_gettop_def)
  show ?thesis
    by (auto simp add: ext_require_rerun_no_args [OF e] to_userdata_pointer_getglobal
        split: lua_value.split)
qed

theorem rerun_request_no_arguments_witness:
  "lua_gettop (lua_mem pass_started 10) = 0 \<and>
   \<not> require_extra_run (env_mem pass_started 0) \<and>
   fst (ext_require_rerun example_host 10 pass_started) = Returned 0 \<and>
   require_extra_run (env_mem (snd (ext_require_rerun example_host 10 pass_started)) 0) \<and>
   lua_gettop (lua_mem example_world 0) = 0 \<and>
   fst (ext_require_rerun example_host 0 example_world) = Raised ''Invalid internal value'' \<and>
   \<not> require_extra_run (env_mem (snd (ext_require_rerun example_host 0 example_world)) 0)"
proof -
  have t: "lua_gettop (lua_mem pass_started 10) = 0"
    by (simp add: lua_gettop_def pass_started_facts)
  have n: "EM_ENV_VAR_NAME example_host = ''em_env''"
    by (simp add: example_host_def)
  have g: "globals (lua_mem pass_started 10) (EM_ENV_VAR_NAME example_host) = LLightUserdata 12 \<and>
           lp_type (ptr_mem pass_started 12) = EXT_ENV"
    by (simp add: n pass_started_facts)
  from rerun_request_no_arguments [OF t, of example_host] g
  have ok: "ext_require_rerun example_host 10 pass_started =
              (Returned 0, on_env (lp_data (ptr_mem pass_started 12))
                 (\<lambda>x. x\<lparr>require_extra_run := True\<rparr>) pass_started)"
    by blast
  have t0: "lua_gettop (lua_mem example_world 0) = 0"
    by (simp add: lua_gettop_def example_world_def lua_newstate_def)
  have g0: "\<nexists>p. globals (lua_mem example_world 0) (EM_ENV_VAR_NAME example_host) = LLightUserdata p \<and>
                lp_type (ptr_mem example_world p) = EXT_ENV"
    by (simp add: example_world_def lua_newstate_def)
  from rerun_request_no_arguments [OF t0, of example_host] g0
  have bad: "fst (ext_require_rerun example_host 0 example_world) = Raised ''Invalid internal value'' \<and>
             env_mem (snd (ext_require_rerun example_host 0 example_world)) = env_mem example_world"
    by blast
  have f0: "\<not> require_extra_run (env_mem example_world 0)"
    by (simp add: example_world_def)
  show ?thesis
    using t t0 bad f0 by (simp add: ok pass_started_facts)
qed

text \<open>
  C6: called with arguments, \<open>ext_require_rerun\<close> first calls \<open>log_warn\<close>, and this is
  its only call to a collaborator; when \<open>log_warn\<close> returns non-zero it raises
  \<open>Warnings are fatal\<close> and writes no environment; otherwise it goes on as without
  arguments. So with arguments there is always a warning.
\<close>

theorem rerun_request_with_arguments:
  assumes "lua_gettop (lua_mem w s) \<noteq> 0"
  shows "trace (snd (ext_require_rerun h s w)) = trace w @ [Log_warn warning (log_warn h warning)] \<and>
         (log_warn h warning \<noteq> 0 \<longrightarrow>
            fst (ext_require_rerun h s w) = Raised ''Warnings are fatal'' \<and>
            env_mem (snd (ext_require_rerun h s w)) = env_mem w) \<and>
         (log_warn h warning = 0 \<longrightarrow>
            (\<exists>e. fst (ext_require_rerun h s w) = Returned 0 \<and>
                 env_mem (snd (ext_require_rerun h s w)) =
                   (env_mem w)(e := (env_mem w e)\<lparr>require_extra_run := True\<rparr>)) \<or>
            fst (ext_require_rerun h s w) = Raised ''Invalid internal value'' \<and>
            env_mem (snd (ext_require_rerun h s w)) = env_mem w)"
proof -
  from assms have e: "stack (lua_mem w s) \<noteq> []" by (simp add: lua_gettop_def)
  show ?thesis
    by (cases "to_userdata_pointer s (- 1) EXT_ENV
                 (on_lua s (\<lambda>L. lua_getglobal L (EM_ENV_VAR_NAME h)) w)")
       (auto simp add: ext_require_rerun_args [OF e] Let_def)
qed

theorem rerun_request_with_arguments_witness:
  "lua_gettop (lua_mem (on_lua 10 (\<lambda>L. L\<lparr>stack := [LInteger 1]\<rparr>) pass_started) 10) \<noteq> 0 \<and>
   log_warn fatal_host warning \<noteq> 0 \<and>
   fst (ext_require_rerun fatal_host 10 (on_lua 10 (\<lambda>L. L\<lparr>stack := [LInteger 1]\<rparr>) pass_started)) =
     Raised ''Warnings are fatal'' \<and>
   trace (snd (ext_require_rerun fatal_host 10 (on_lua 10 (\<lambda>L. L\<lparr>stack := [LInteger 1]\<rparr>) pass_started))) =
     trace pass_started @ [Log_warn warning 1] \<and>
   \<not> require_extra_run (env_mem (snd (ext_require_rerun fatal_host 10
        (on_lua 10 (\<lambda>L. L\<lparr>stack := [LInteger 1]\<rparr>) pass_started))) 0) \<and>
   log_warn example_host warning = 0 \<and>
   fst (ext_require_rerun example_host 10 (on_lua 10 (\<lambda>L. L\<lparr>stack := [LInteger 1]\<rparr>) pass_started)) =
     Returned 0 \<and>
   trace (snd (ext_require_rerun example_host 10 (on_lua 10 (\<lambda>L. L\<lparr>stack := [LInteger 1]\<rparr>) pass_started))) =
     trace pass_started @ [Log_warn warning 0] \<and>
   require_extra_run (env_mem (snd (ext_require_rerun example_host 10
        (on_lua 10 (\<lambda>L. L\<lparr>stack := [LInteger 1]\<rparr>) pass_started))) 0)"
proof -
  let ?w = "on_lua 10 (\<lambda>L. L\<lparr>stack := [LInteger 1]\<rparr>) pass_started"
  have t: "lua_gettop (lua_mem ?w 10) \<noteq> 0"
    by (simp add: lua_gettop_def)
  have s: "stack (lua_mem ?w 10) \<noteq> []"
    by simp
  have f: "log_warn fatal_host warning = 1"
    by (simp add: fatal_host_def)
  have z: "log_warn example_host warning = 0" "EM_ENV_VAR_NAME example_host = ''em_env''"
    by (simp_all add: example_host_def)
  have fatal:
    "fst (ext_require_rerun fatal_host 10 ?w) = Raised ''Warnings are fatal''"
    "trace (snd (ext_require_rerun fatal_host 10 ?w)) = trace pass_started @ [Log_warn warning 1]"
    "\<not> require_extra_run (env_mem (snd (ext_require_rerun fatal_host 10 ?w)) 0)"
    using rerun_request_with_arguments [OF t, of fatal_host] unfolding f
    by (simp_all add: pass_started_facts)
  have r: "to_userdata_pointer 10 (- 1) EXT_ENV
             (on_lua 10 (\<lambda>L. lua_getglobal L ''em_env'') ?w) = Some 0"
    by (simp add: to_userdata_pointer_def index2value_def lua_getglobal_def pass_started_facts)
  have "fst (ext_require_rerun example_host 10 ?w) = Returned 0 \<and>
        require_extra_run (env_mem (snd (ext_require_rerun example_host 10 ?w)) 0)"
    unfolding ext_require_rerun_args [OF s] z Let_def r by simp
  moreover have "trace (snd (ext_require_rerun example_host 10 ?w)) =
                   trace pass_started @ [Log_warn warning 0]"
    using rerun_request_with_arguments [OF t, of example_host] unfolding z by simp
  ultimately show ?thesis
    using t f z(1) fatal by simp
qed

text \<open>
  C10: a call of \<open>ext_require_rerun\<close> that returns gives Lua zero results, leaves every
  Lua state (so the stack and its depth) and every handle as they were, and changes
  the store of environments only in the rerun flag of the environment its self-handle
  points to: the state pointer, the iteration counter and the four handles of every
  environment are unchanged.
\<close>

theorem rerun_request_frame:
  assumes "ext_require_rerun h s w = (Returned n, w')"
  shows "n = 0 \<and>
         length (stack (lua_mem w' s)) = length (stack (lua_mem w s)) \<and>
         lua_mem w' = lua_mem w \<and> ptr_mem w' = ptr_mem w \<and>
         (\<exists>p. globals (lua_mem w s) (EM_ENV_VAR_NAME h) = LLightUserdata p \<and>
               lp_type (ptr_mem w p) = EXT_ENV \<and>
               env_mem w' = (env_mem w)(lp_data (ptr_mem w p) :=
                  (env_mem w (lp_data (ptr_mem w p)))\<lparr>require_extra_run := True\<rparr>)) \<and>
         (\<forall>a. state (env_mem w' a) = state (env_mem w a) \<and>
              iter_num (env_mem w' a) = iter_num (env_mem w a) \<and>
              selfp (env_mem w' a) = selfp (env_mem w a) \<and>
              styler (env_mem w' a) = styler (env_mem w a) \<and>
              args (env_mem w' a) = args (env_mem w a) \<and>
              mt_names_list (env_mem w' a) = mt_names_list (env_mem w a))"
proof -
  let ?r = "to_userdata_pointer s (- 1) EXT_ENV (on_lua s (\<lambda>L. lua_getglobal L (EM_ENV_VAR_NAME h)) w)"
  let ?w1 = "if stack (lua_mem w s) = [] then w
             else w\<lparr>trace := trace w @ [Log_warn warning (log_warn h warning)]\<rparr>"
  have "\<exists>e. ?r = Some e \<and> n = 0 \<and> w' = on_env e (\<lambda>x. x\<lparr>require_extra_run := True\<rparr>) ?w1"
  proof (cases "stack (lua_mem w s) = []")
    case True
    with assms show ?thesis
      by (cases ?r) (simp_all add: ext_require_rerun_no_args)
  next
    case False
    with assms show ?thesis
      by (cases ?r) (simp_all add: ext_require_rerun_args Let_def split: if_splits)
  qed
  then obtain e where r: "?r = Some e" and n: "n = 0"
    and w': "w' = on_env e (\<lambda>x. x\<lparr>require_extra_run := True\<rparr>) ?w1"
    by blast
  from r obtain p where p: "globals (lua_mem w s) (EM_ENV_VAR_NAME h) = LLightUserdata p"
    "lp_type (ptr_mem w p) = EXT_ENV" "e = lp_data (ptr_mem w p)"
    by (auto simp add: to_userdata_pointer_getglobal split: lua_value.splits if_splits)
  have m: "lua_mem w' = lua_mem w" "ptr_mem w' = ptr_mem w"
    "env_mem w' = (env_mem w)(e := (env_mem w e)\<lparr>require_extra_run := True\<rparr>)"
    by (simp_all add: w')
  show ?thesis
    using n p by (simp add: m)
qed

theorem rerun_request_frame_witness:
  "ext_require_rerun example_host 10 pass_started =
     (Returned 0, on_env 0 (\<lambda>x. x\<lparr>require_extra_run := True\<rparr>) pass_started) \<and>
   env_mem (on_env 0 (\<lambda>x. x\<lparr>require_extra_run := True\<rparr>) pass_started) 0 =
     \<lparr>state = 10, require_extra_run = True, iter_num = 0, styler = 11, selfp = 12, args = 13,
      mt_names_list = 14\<rparr> \<and>
   env_mem pass_started 0 =
     \<lparr>state = 10, require_extra_run = False, iter_num = 0, styler = 11, selfp = 12, args = 13,
      mt_names_list = 14\<rparr> \<and>
   lua_mem (on_env 0 (\<lambda>x. x\<lparr>require_extra_run := True\<rparr>) pass_started) = lua_mem pass_started"
proof -
  have e: "ext_require_rerun example_host 10 pass_started =
     (Returned 0, on_env 0 (\<lambda>x. x\<lparr>require_extra_run := True\<rparr>) pass_started)"
    by (simp add: ext_require_rerun_no_args pass_started_facts to_userdata_pointer_getglobal
        example_host_def)
  show ?thesis
    using e rerun_request_frame [OF e]
    by (simp add: pass_started_def created_world_env)
qed

subsection \<open>The rerun flag over every run of the operations\<close>

lemma dest_ext_env_env: "env_mem (dest_ext_env ext w) = env_mem w"
  by (simp add: dest_ext_env_def Let_def dest_lua_pointer_def)

lemma finalise_env: "env_mem (finalise_env_for_typesetting h e w) = env_mem w"
  by (simp add: finalise_env_for_typesetting_def call_rescind_styler_def)

lemma ext_require_rerun_flag:
  "require_extra_run (env_mem w a) \<Longrightarrow> require_extra_run (env_mem (snd (ext_require_rerun h s w)) a)"
  by (cases "stack (lua_mem w s) = []")
     (simp_all add: ext_require_rerun_no_args ext_require_rerun_args Let_def split: option.split)

lemma core_step_flag:
  assumes flag: "require_extra_run (env_mem w a)"
  shows "require_extra_run (env_mem (core_step h op w) a)"
proof (cases op)
  case (Create ext params)
  with flag show ?thesis by (simp add: make_ext_env_env)
next
  case (Finalise e)
  with flag show ?thesis by (simp add: finalise_env)
next
  case (Destroy ext)
  with flag show ?thesis by (simp add: dest_ext_env_env)
next
  case (Requires_reiter s as)
  from flag have "require_extra_run (env_mem (on_lua s (\<lambda>L. L\<lparr>stack := as\<rparr>) w) a)" by simp
  then show ?thesis unfolding Requires_reiter core_step.simps by (rule ext_require_rerun_flag)
qed

lemma core_run_flag:
  "require_extra_run (env_mem w a) \<Longrightarrow> require_extra_run (env_mem (core_run h ops w) a)"
  unfolding core_run_def
  by (induction ops arbitrary: w) (simp_all add: core_step_flag)

text \<open>
  C9: no operation of the file takes the rerun flag of any environment from true to
  false, and after an environment has been created its flag is true after every
  sequence of operations.
\<close>

theorem rerun_flag_never_cleared:
  "(require_extra_run (env_mem w a) \<longrightarrow> require_extra_run (env_mem (core_step h op w) a)) \<and>
   require_extra_run (env_mem (core_run h ops (snd (make_ext_env h ext params w'))) ext)"
  by (simp add: core_step_flag core_run_flag make_ext_env_env)

theorem rerun_flag_never_cleared_witness:
  "require_extra_run (env_mem (snd (make_ext_env example_host 0 example_params example_world)) 0) \<and>
   require_extra_run (env_mem (core_step example_host (Requires_reiter 10 [LInteger 1])
      (snd (make_ext_env example_host 0 example_params example_world))) 0) \<and>
   require_extra_run (env_mem (core_run example_host [Requires_reiter 10 [], Finalise 0, Destroy 0]
      (snd (make_ext_env example_host 0 example_params example_world))) 0)"
proof -
  have f: "require_extra_run (env_mem (snd (make_ext_env example_host 0 example_params example_world)) 0)"
    by (simp add: make_ext_env_env)
  show ?thesis
    using f rerun_flag_never_cleared [where w = "snd (make_ext_env example_host 0 example_params example_world)"
        and a = 0 and h = example_host and op = "Requires_reiter 10 [LInteger 1]"
        and ops = "[Requires_reiter 10 [], Finalise 0, Destroy 0]"
        and ext = 0 and params = example_params and w' = example_world]
    by simp
qed

end
